theory Spec2Isabelle
  imports Main "HOL-Library.AList" "HOL-Library.Monad_Syntax"
begin

chapter \<open>PartySnap notifications: a shallow embedding of the dispatch engine and the caches\<close>

text \<open>
  The first part of this theory translates the JavaScript sources into HOL functions, file by
  file; the second part states and proves properties of them.  Asynchronous functions are
  modelled by their sequential result: every \<open>await\<close> in the sources is on a call that has
  completed before the next statement runs.  External collaborators (the relational store,
  the key-value cache, the push SDKs, the object storage) are explicit arguments: tables are
  values that are passed in and returned, SDK calls are functions from the request to the
  response, and every failure the code has a branch for is a value of the model.
\<close>

section \<open>JavaScript values\<close>

text \<open>
  The payload of a notification is what \<open>JSON.parse\<close> makes of the request body: its values
  are \<open>null\<close>, booleans, numbers, strings, arrays and objects.  Numbers are restricted to
  integers; an object is an association list in insertion order, and reading an absent key
  gives \<open>undefined\<close>.
\<close>

datatype jsval = JUndefined | JNull | JBool bool | JNum int | JStr string
  | JArr "jsval list" | JObj "(string \<times> jsval) list"

type_synonym jsobj = "(string \<times> jsval) list"

fun truthy :: "jsval \<Rightarrow> bool" where
  "truthy JUndefined = False"
| "truthy JNull = False"
| "truthy (JBool b) = b"
| "truthy (JNum n) = (n \<noteq> 0)"
| "truthy (JStr s) = (s \<noteq> [])"
| "truthy (JArr xs) = True"
| "truthy (JObj kvs) = True"

text \<open>The values that are not objects.\<close>

fun primitive :: "jsval \<Rightarrow> bool" where
  "primitive (JArr xs) = False"
| "primitive (JObj kvs) = False"
| "primitive v = True"

definition js_get :: "jsobj \<Rightarrow> string \<Rightarrow> jsval" where
  "js_get obj k = (case map_of obj k of None \<Rightarrow> JUndefined | Some v \<Rightarrow> v)"

text \<open>\<open>a || b\<close> and \<open>a ?? b\<close>.\<close>

definition js_or :: "jsval \<Rightarrow> jsval \<Rightarrow> jsval" where
  "js_or a b = (if truthy a then a else b)"

fun nullish :: "jsval \<Rightarrow> bool" where
  "nullish JUndefined = True"
| "nullish JNull = True"
| "nullish v = False"

definition js_coalesce :: "jsval \<Rightarrow> jsval \<Rightarrow> jsval" where
  "js_coalesce a b = (if nullish a then b else a)"

text \<open>Decimal rendering of numbers, as a template literal does it.\<close>

definition digit_char :: "nat \<Rightarrow> char" where
  "digit_char d = char_of (48 + d)"

fun show_nat :: "nat \<Rightarrow> string" where
  "show_nat n = (if n < 10 then [digit_char n] else show_nat (n div 10) @ [digit_char (n mod 10)])"

definition show_int :: "int \<Rightarrow> string" where
  "show_int i = (if i < 0 then CHR ''-'' # show_nat (nat (- i)) else show_nat (nat i))"

text \<open>\<open>xs.join(sep)\<close> for an array of strings.\<close>

fun join :: "string \<Rightarrow> string list \<Rightarrow> string" where
  "join sep [] = []"
| "join sep [x] = x"
| "join sep (x # y # ys) = x @ sep @ join sep (y # ys)"

text \<open>
  \<open>ToString\<close>, as a template literal applies it; \<open>None\<close> is the \<open>TypeError\<close> of a value that
  has no primitive.  An array converts by \<open>join\<close>: its elements converted and separated by
  commas, a \<open>null\<close> or \<open>undefined\<close> element giving the empty string.  An object made by
  \<open>JSON.parse\<close> inherits \<open>toString\<close> and \<open>valueOf\<close> from \<open>Object.prototype\<close> and converts to
  \<open>[object Object]\<close>, unless it has a key \<open>toString\<close> of its own: the value of that key is
  no function, so the conversion goes on to \<open>valueOf\<close>, which gives no primitive either (a
  key \<open>valueOf\<close> of its own is no function, the inherited method returns the object), and
  throws.
\<close>

fun to_string :: "jsval \<Rightarrow> string option" where
  "to_string JUndefined = Some ''undefined''"
| "to_string JNull = Some ''null''"
| "to_string (JBool b) = Some (if b then ''true'' else ''false'')"
| "to_string (JNum n) = Some (show_int n)"
| "to_string (JStr s) = Some s"
| "to_string (JArr xs) =
     map_option (join '','') (those (map (\<lambda>x. if nullish x then Some [] else to_string x) xs))"
| "to_string (JObj kvs) =
     (case map_of kvs ''toString'' of None \<Rightarrow> Some ''[object Object]'' | Some v \<Rightarrow> None)"

text \<open>
  \<open>ToPrimitive\<close>, which a comparison with a number applies first: a primitive is itself; for
  an array or an object \<open>valueOf\<close> gives no primitive, and the result is the string that
  \<open>toString\<close> gives.
\<close>

definition to_primitive :: "jsval \<Rightarrow> jsval option" where
  "to_primitive v = (if primitive v then Some v else map_option JStr (to_string v))"

text \<open>The message of the \<open>TypeError\<close>, as V8 words it.\<close>

definition no_primitive :: string where
  "no_primitive = ''Cannot convert object to primitive value''"

text \<open>
  A template literal: its parts are converted from left to right, and the first part that has
  no string throws.
\<close>

definition template_literal :: "string option list \<Rightarrow> string option" where
  "template_literal parts = map_option concat (those parts)"

text \<open>
  \<open>ToNumber\<close> of a primitive, used by \<open>count >= 100\<close>.  \<open>None\<close> is \<open>NaN\<close>.  A string converts
  when it is empty or a plain decimal integer literal with an optional sign; every other
  string is \<open>NaN\<close> here (the model has no fractions, exponents or hexadecimal literals).
\<close>

definition is_digit :: "char \<Rightarrow> bool" where
  "is_digit c = (48 \<le> (of_char c :: nat) \<and> (of_char c :: nat) \<le> 57)"

definition digits_value :: "string \<Rightarrow> nat" where
  "digits_value s = foldl (\<lambda>acc c. 10 * acc + ((of_char c :: nat) - 48)) 0 s"

definition str_to_number :: "string \<Rightarrow> int option" where
  "str_to_number s =
     (case s of
        [] \<Rightarrow> Some 0
      | c # cs \<Rightarrow>
          (if (c = CHR ''-'' \<or> c = CHR ''+'') \<and> cs \<noteq> [] \<and> list_all is_digit cs
           then Some ((if c = CHR ''-'' then - 1 else 1) * int (digits_value cs))
           else if list_all is_digit s then Some (int (digits_value s))
           else None))"

fun to_number :: "jsval \<Rightarrow> int option" where
  "to_number JNull = Some 0"
| "to_number (JBool b) = Some (if b then 1 else 0)"
| "to_number (JNum n) = Some n"
| "to_number (JStr s) = str_to_number s"
| "to_number v = None"

text \<open>\<open>v >= n\<close> for a number \<open>n\<close>; \<open>None\<close> when the conversion of \<open>v\<close> throws.\<close>

definition js_ge :: "jsval \<Rightarrow> int \<Rightarrow> bool option" where
  "js_ge v n =
     map_option (\<lambda>p. case to_number p of None \<Rightarrow> False | Some k \<Rightarrow> n \<le> k) (to_primitive v)"

section \<open>Notification templates (templates.js)\<close>

text \<open>The emoji of the titles, as their UTF-8 bytes.\<close>

definition emoji_fire :: string where
  "emoji_fire = [char_of (0xF0::nat), char_of (0x9F::nat), char_of (0x94::nat), char_of (0xA5::nat)]"
definition emoji_star :: string where
  "emoji_star = [char_of (0xE2::nat), char_of (0xAD::nat), char_of (0x90::nat)]"
definition emoji_clap :: string where
  "emoji_clap = [char_of (0xF0::nat), char_of (0x9F::nat), char_of (0x91::nat), char_of (0x8F::nat)]"
definition emoji_heart :: string where
  "emoji_heart = [char_of (0xE2::nat), char_of (0x9D::nat), char_of (0xA4::nat),
                  char_of (0xEF::nat), char_of (0xB8::nat), char_of (0x8F::nat)]"
definition emoji_thumb :: string where
  "emoji_thumb = [char_of (0xF0::nat), char_of (0x9F::nat), char_of (0x91::nat), char_of (0x8D::nat)]"
definition emoji_camera :: string where
  "emoji_camera = [char_of (0xF0::nat), char_of (0x9F::nat), char_of (0x93::nat), char_of (0xB8::nat)]"
definition emoji_party :: string where
  "emoji_party = [char_of (0xF0::nat), char_of (0x9F::nat), char_of (0x8E::nat), char_of (0x89::nat)]"
definition emoji_clock :: string where
  "emoji_clock = [char_of (0xE2::nat), char_of (0x8F::nat), char_of (0xB0::nat)]"
definition emoji_calendar :: string where
  "emoji_calendar = [char_of (0xF0::nat), char_of (0x9F::nat), char_of (0x93::nat), char_of (0x85::nat)]"
definition emoji_bolt :: string where
  "emoji_bolt = [char_of (0xE2::nat), char_of (0x9A::nat), char_of (0xA1::nat)]"

record template =
  t_title :: "jsobj \<Rightarrow> string option"
  t_body :: "jsobj \<Rightarrow> string option"
  t_type :: string
  t_priority :: string
  t_channel :: string
  t_sound :: string
  t_vibration :: bool

text \<open>
  The title and body functions; \<open>None\<close> is the \<open>TypeError\<close> of a comparison or a template
  literal on a value that has no primitive.
\<close>

definition photo_liked_title :: "jsobj \<Rightarrow> string option" where
  "photo_liked_title data =
     (let count = js_or (js_get data ''likeCount'') (JNum 1) in
      do {
        ge100 \<leftarrow> js_ge count 100;
        if ge100 then Some (''Your photo is on fire! '' @ emoji_fire)
        else do {
          ge50 \<leftarrow> js_ge count 50;
          if ge50 then Some (''Your photo is trending! '' @ emoji_star)
          else do {
            ge20 \<leftarrow> js_ge count 20;
            if ge20 then Some (''Your photo is popular! '' @ emoji_clap)
            else do {
              ge10 \<leftarrow> js_ge count 10;
              if ge10 then Some (''People love your photo! '' @ emoji_heart)
              else Some (''Someone liked your photo! '' @ emoji_thumb)
            }
          }
        }
      })"

definition photo_liked_body :: "jsobj \<Rightarrow> string option" where
  "photo_liked_body data =
     (let count = js_or (js_get data ''likeCount'') (JNum 1);
          eventName = js_or (js_get data ''eventName'') (JStr ''your event'') in
      do {
        ge100 \<leftarrow> js_ge count 100;
        if ge100
        then template_literal [to_string count, Some '' likes and counting at '',
               to_string eventName, Some ''!'']
        else do {
          ge50 \<leftarrow> js_ge count 50;
          if ge50
          then template_literal [to_string count, Some '' people have liked your photo from '',
                 to_string eventName]
          else do {
            ge20 \<leftarrow> js_ge count 20;
            if ge20
            then template_literal [to_string count, Some '' likes on your photo from '',
                   to_string eventName]
            else do {
              ge10 \<leftarrow> js_ge count 10;
              if ge10
              then template_literal [to_string count, Some '' people liked your photo from '',
                     to_string eventName]
              else template_literal [Some ''Your photo from '', to_string eventName,
                     Some '' got a new like'']
            }
          }
        }
      })"

definition gallery_unlocked_body :: "jsobj \<Rightarrow> string option" where
  "gallery_unlocked_body data =
     (let eventName = js_or (js_get data ''eventName'') (JStr ''your event'') in
      template_literal [Some ''Photos from '', to_string eventName,
        Some '' are now available to view and download''])"

definition community_milestone_title :: "jsobj \<Rightarrow> string option" where
  "community_milestone_title data =
     (let milestone = js_or (js_get data ''milestone'') (JNum 100) in
      template_literal [to_string milestone, Some ('' photos milestone! '' @ emoji_party)])"

definition community_milestone_body :: "jsobj \<Rightarrow> string option" where
  "community_milestone_body data =
     (let eventName = js_or (js_get data ''eventName'') (JStr ''your event'');
          milestone = js_or (js_get data ''milestone'') (JNum 100) in
      template_literal [to_string eventName, Some '' just reached '', to_string milestone,
        Some '' amazing photos shared by the community''])"

definition event_live_body :: "jsobj \<Rightarrow> string option" where
  "event_live_body data =
     (let eventName = js_or (js_get data ''eventName'') (JStr ''Your event'') in
      template_literal [to_string eventName,
        Some '' has started! Start capturing and sharing memories''])"

definition event_starting_body :: "jsobj \<Rightarrow> string option" where
  "event_starting_body data =
     (let eventName = js_or (js_get data ''eventName'') (JStr ''Your event'');
          minutes = js_or (js_get data ''minutesUntilStart'') (JNum 15) in
      template_literal [to_string eventName, Some '' starts in '', to_string minutes,
        Some '' minutes. Get ready to capture memories!''])"

definition event_reminder_body :: "jsobj \<Rightarrow> string option" where
  "event_reminder_body data =
     (let eventName = js_or (js_get data ''eventName'') (JStr ''Your event'');
          hours = js_or (js_get data ''hoursUntilStart'') (JNum 1) in
      template_literal [to_string eventName, Some '' is in '', to_string hours, Some '' '',
        Some (if hours = JNum 1 then ''hour'' else ''hours''),
        Some ''. Make sure you're ready!''])"

definition peak_activity_body :: "jsobj \<Rightarrow> string option" where
  "peak_activity_body data =
     (let eventName = js_or (js_get data ''eventName'') (JStr ''your event'');
          photoCount = js_or (js_get data ''recentPhotoCount'') (JStr ''Many'') in
      template_literal [to_string photoCount, Some '' photos shared in the last hour at '',
        to_string eventName, Some ''. Join the action!''])"

definition NOTIFICATION_TEMPLATES :: "(string \<times> template) list" where
  "NOTIFICATION_TEMPLATES =
    [(''photo_liked'',
        \<lparr>t_title = photo_liked_title, t_body = photo_liked_body, t_type = ''photo_liked'',
         t_priority = ''high'', t_channel = ''photo-likes'', t_sound = ''default'',
         t_vibration = True\<rparr>),
     (''gallery_unlocked'',
        \<lparr>t_title = (\<lambda>data. Some (''Gallery unlocked! '' @ emoji_camera)), t_body = gallery_unlocked_body,
         t_type = ''gallery_unlocked'', t_priority = ''high'', t_channel = ''community'',
         t_sound = ''default'', t_vibration = True\<rparr>),
     (''community_milestone'',
        \<lparr>t_title = community_milestone_title, t_body = community_milestone_body,
         t_type = ''community_milestone'', t_priority = ''medium'', t_channel = ''community'',
         t_sound = ''default'', t_vibration = False\<rparr>),
     (''event_live'',
        \<lparr>t_title = (\<lambda>data. Some (''Event is live! '' @ emoji_party)), t_body = event_live_body,
         t_type = ''event_live'', t_priority = ''high'', t_channel = ''event-updates'',
         t_sound = ''event_start'', t_vibration = True\<rparr>),
     (''event_starting'',
        \<lparr>t_title = (\<lambda>data. Some (''Event starting soon! '' @ emoji_clock)), t_body = event_starting_body,
         t_type = ''event_starting'', t_priority = ''high'', t_channel = ''event-updates'',
         t_sound = ''default'', t_vibration = True\<rparr>),
     (''event_reminder'',
        \<lparr>t_title = (\<lambda>data. Some (''Don't forget your event! '' @ emoji_calendar)),
         t_body = event_reminder_body, t_type = ''event_reminder'', t_priority = ''medium'',
         t_channel = ''event-updates'', t_sound = ''gentle_reminder'', t_vibration = False\<rparr>),
     (''peak_activity'',
        \<lparr>t_title = (\<lambda>data. Some (''Peak activity happening! '' @ emoji_bolt)), t_body = peak_activity_body,
         t_type = ''peak_activity'', t_priority = ''low'', t_channel = ''peak-activity'',
         t_sound = ''subtle'', t_vibration = False\<rparr>)]"

text \<open>The seven canonical types are the keys of the template table.\<close>

definition notification_types :: "string list" where
  "notification_types = map fst NOTIFICATION_TEMPLATES"

record notification =
  n_type :: string
  n_title :: string
  n_body :: string
  n_priority :: string
  n_channel :: string
  n_sound :: string
  n_vibration :: bool
  n_imageUrl :: jsval
  n_data :: jsobj

text \<open>
  \<open>buildNotification\<close> throws \<open>Error(message)\<close> for a type without a template, and the
  \<open>TypeError\<close> of the title or the body function; \<open>Inl\<close> is the message of the exception.
  \<open>stamp\<close> is the value of \<open>new Date().toISOString()\<close> at the call.
\<close>

definition buildNotification :: "string \<Rightarrow> string \<Rightarrow> jsobj \<Rightarrow> string + notification" where
  "buildNotification stamp type data =
     (case map_of NOTIFICATION_TEMPLATES type of
        None \<Rightarrow> Inl (''Unknown notification type: '' @ type)
      | Some template \<Rightarrow>
          (case t_title template data of
             None \<Rightarrow> Inl no_primitive
           | Some title \<Rightarrow>
               (case t_body template data of
                  None \<Rightarrow> Inl no_primitive
                | Some body \<Rightarrow>
                    Inr \<lparr>n_type = t_type template,
                         n_title = title,
                         n_body = body,
                         n_priority = t_priority template,
                         n_channel = t_channel template,
                         n_sound = t_sound template,
                         n_vibration = t_vibration template,
                         n_imageUrl = js_or (js_get data ''imageUrl'') JNull,
                         n_data = AList.update ''timestamp'' (JStr stamp)
                                    (AList.update ''notificationType'' (JStr (t_type template))
                                       data)\<rparr>)))"

definition required_fields :: "(string \<times> string list) list" where
  "required_fields =
    [(''photo_liked'', [''eventName'', ''likeCount'']),
     (''gallery_unlocked'', [''eventName'']),
     (''community_milestone'', [''eventName'', ''milestone'']),
     (''event_live'', [''eventName'']),
     (''event_starting'', [''eventName'', ''minutesUntilStart'']),
     (''event_reminder'', [''eventName'', ''hoursUntilStart'']),
     (''peak_activity'', [''eventName'', ''recentPhotoCount''])]"

text \<open>
  \<open>requiredFields\<close> is \<open>required[type] || []\<close>; \<open>validateNotificationData\<close> returns \<open>true\<close>
  or throws \<open>Error(message)\<close>.
\<close>

definition requiredFields :: "string \<Rightarrow> string list" where
  "requiredFields type = (case map_of required_fields type of None \<Rightarrow> [] | Some fs \<Rightarrow> fs)"

definition validateNotificationData :: "string \<Rightarrow> jsobj \<Rightarrow> string + bool" where
  "validateNotificationData type data =
     (let missing = filter (\<lambda>field. \<not> truthy (js_get data field)) (requiredFields type) in
      if length missing > 0
      then Inl (''Missing required data for '' @ type @ '': '' @ join '', '' missing)
      else Inr True)"

record type_settings =
  s_enabled :: bool
  s_batchEnabled :: bool
  s_quietHours :: bool

definition DEFAULT_SETTINGS :: "(string \<times> type_settings) list" where
  "DEFAULT_SETTINGS =
    [(''photo_liked'', \<lparr>s_enabled = True, s_batchEnabled = True, s_quietHours = True\<rparr>),
     (''gallery_unlocked'', \<lparr>s_enabled = True, s_batchEnabled = False, s_quietHours = False\<rparr>),
     (''community_milestone'', \<lparr>s_enabled = True, s_batchEnabled = True, s_quietHours = True\<rparr>),
     (''event_live'', \<lparr>s_enabled = True, s_batchEnabled = False, s_quietHours = False\<rparr>),
     (''event_starting'', \<lparr>s_enabled = True, s_batchEnabled = False, s_quietHours = False\<rparr>),
     (''event_reminder'', \<lparr>s_enabled = True, s_batchEnabled = False, s_quietHours = True\<rparr>),
     (''peak_activity'', \<lparr>s_enabled = True, s_batchEnabled = True, s_quietHours = True\<rparr>)]"

section \<open>The relational store (supabase.js and the stored procedure)\<close>

text \<open>
  Times of day are seconds after midnight.  A row of \<open>notification_preferences\<close> has the
  columns of the table definition; the table is keyed by \<open>user_id\<close>, which is unique.
\<close>

record prefs_row =
  pr_id :: string
  photo_likes :: bool
  community_activity :: bool
  event_updates :: bool
  peak_activity :: bool
  batch_mode :: bool
  quiet_hours_enabled :: bool
  quiet_hours_start :: nat
  quiet_hours_end :: nat
  timezone :: "string option"
  created_at :: string
  updated_at :: string

record token_row =
  tk_user_id :: string
  tk_token :: string
  tk_platform :: string
  tk_device_id :: string
  tk_is_active :: bool
  tk_token_type :: "string option"
  tk_device_token :: "string option"

record history_row =
  h_user_id :: string
  h_notification_type :: string
  h_title :: string
  h_body :: string
  h_data :: jsobj
  h_event_id :: jsval
  h_photo_id :: jsval
  h_status :: string

record store =
  notification_preferences :: "string \<rightharpoonup> prefs_row"
  push_tokens :: "token_row list"
  notification_history :: "(string \<times> history_row) list"

text \<open>
  What the store answers outside the tables: the clock, the identifiers it generates, and
  whether a request to it comes back with an error.  \<open>session_time\<close> is \<open>CURRENT_TIME\<close>, the
  time of day in the time zone of the database session; \<open>local_time z\<close> is
  \<open>CURRENT_TIME AT TIME ZONE z\<close>.  The clock is read in whole seconds.
\<close>

record store_env =
  sql_now :: string
  session_time :: nat
  local_time :: "string \<Rightarrow> nat"
  new_uuid :: string
  rpc_error :: bool
  prefs_error :: bool
  tokens_error :: bool
  history_error :: bool
  deactivate_error :: bool

text \<open>
  The row that \<open>INSERT INTO notification_preferences (user_id) VALUES (user_uuid)\<close> creates
  from the column defaults.
\<close>

definition default_prefs_row :: "store_env \<Rightarrow> prefs_row" where
  "default_prefs_row e =
     \<lparr>pr_id = new_uuid e, photo_likes = True, community_activity = True, event_updates = True,
      peak_activity = True, batch_mode = False, quiet_hours_enabled = False,
      quiet_hours_start = 22 * 3600, quiet_hours_end = 7 * 3600, timezone = Some ''UTC'',
      created_at = sql_now e, updated_at = sql_now e\<rparr>"

text \<open>
  The stored procedure \<open>should_send_notification(user_uuid)\<close> of
  \<open>fix_notification_preferences.sql\<close>.  Its variable for the user's local time is named
  \<open>current_time\<close>, which is a reserved word of SQL.  The assignment sets the variable, but in
  the conditions, which are SQL expressions, \<open>current_time\<close> is the function \<open>CURRENT_TIME\<close> and
  not the variable: the quiet hours are compared with the time of the session.  (The operands
  are a time with zone and a time; the time is taken in the session's zone, so the comparison
  is that of the two times of day.)  PostgreSQL from version 14 on parses the assignment with
  the SQL grammar as well and rejects the definition of the function; a store without the
  function answers every call with an error, which is the case \<open>rpc_error\<close> below.
\<close>

definition should_send_notification_sql :: "store_env \<Rightarrow> store \<Rightarrow> string \<Rightarrow> bool \<times> store" where
  "should_send_notification_sql e db user_uuid =
     (case notification_preferences db user_uuid of
        None \<Rightarrow>
          (True, db\<lparr>notification_preferences :=
                      (notification_preferences db)(user_uuid \<mapsto> default_prefs_row e)\<rparr>)
      | Some prefs \<Rightarrow>
          (if quiet_hours_enabled prefs then
             (let current_time_variable =
                    local_time e (case timezone prefs of None \<Rightarrow> ''UTC'' | Some z \<Rightarrow> z);
                  CURRENT_TIME = session_time e in
              if quiet_hours_start prefs < quiet_hours_end prefs then
                (if quiet_hours_start prefs \<le> CURRENT_TIME \<and> CURRENT_TIME \<le> quiet_hours_end prefs
                 then (False, db) else (True, db))
              else
                (if quiet_hours_start prefs \<le> CURRENT_TIME \<or> CURRENT_TIME \<le> quiet_hours_end prefs
                 then (False, db) else (True, db)))
           else (True, db)))"

text \<open>
  \<open>shouldSendNotification\<close> calls the procedure and allows the notification when the call
  fails.
\<close>

definition shouldSendNotification :: "store_env \<Rightarrow> store \<Rightarrow> string \<Rightarrow> bool \<times> store" where
  "shouldSendNotification e db userId =
     (if rpc_error e then (True, db) else should_send_notification_sql e db userId)"

definition pad2 :: "nat \<Rightarrow> string" where
  "pad2 n = (if n < 10 then CHR ''0'' # show_nat n else show_nat n)"

definition show_time :: "nat \<Rightarrow> string" where
  "show_time t = pad2 (t div 3600) @ '':'' @ pad2 (t mod 3600 div 60) @ '':'' @ pad2 (t mod 60)"

text \<open>A row as the object that \<open>select('*')\<close> gives to JavaScript.\<close>

definition prefs_object :: "string \<Rightarrow> prefs_row \<Rightarrow> jsobj" where
  "prefs_object userId r =
     [(''id'', JStr (pr_id r)),
      (''user_id'', JStr userId),
      (''photo_likes'', JBool (photo_likes r)),
      (''community_activity'', JBool (community_activity r)),
      (''event_updates'', JBool (event_updates r)),
      (''peak_activity'', JBool (peak_activity r)),
      (''batch_mode'', JBool (batch_mode r)),
      (''quiet_hours_enabled'', JBool (quiet_hours_enabled r)),
      (''quiet_hours_start'', JStr (show_time (quiet_hours_start r))),
      (''quiet_hours_end'', JStr (show_time (quiet_hours_end r))),
      (''timezone'', (case timezone r of None \<Rightarrow> JNull | Some z \<Rightarrow> JStr z)),
      (''created_at'', JStr (created_at r)),
      (''updated_at'', JStr (updated_at r))]"

definition fallback_preferences :: jsobj where
  "fallback_preferences =
     [(''photo_likes'', JBool True),
      (''community_activity'', JBool True),
      (''event_updates'', JBool True),
      (''peak_activity'', JBool True),
      (''batch_mode'', JBool False),
      (''quiet_hours_enabled'', JBool True),
      (''quiet_hours_start'', JStr ''22:00''),
      (''quiet_hours_end'', JStr ''07:00''),
      (''timezone'', JStr ''UTC'')]"

text \<open>\<open>.single()\<close> reports an error when the user has no row.\<close>

definition getUserNotificationPreferences :: "store_env \<Rightarrow> store \<Rightarrow> string \<Rightarrow> jsobj" where
  "getUserNotificationPreferences e db userId =
     (if prefs_error e then fallback_preferences
      else (case notification_preferences db userId of
              None \<Rightarrow> fallback_preferences
            | Some r \<Rightarrow> prefs_object userId r))"

text \<open>
  A device as \<open>getUserPushTokens\<close> returns it.  The query selects \<open>token, platform,
  device_id\<close>, so \<open>token_type\<close> and \<open>device_token\<close> are absent from its rows; the record has
  them because \<open>sendToDevices\<close> reads them.
\<close>

record device =
  d_token :: string
  d_platform :: string
  d_device_id :: string
  d_token_type :: "string option"
  d_device_token :: "string option"

definition getUserPushTokens :: "store_env \<Rightarrow> store \<Rightarrow> string \<Rightarrow> device list" where
  "getUserPushTokens e db userId =
     (if tokens_error e then []
      else map (\<lambda>r. \<lparr>d_token = tk_token r, d_platform = tk_platform r,
                      d_device_id = tk_device_id r, d_token_type = None, d_device_token = None\<rparr>)
             (filter (\<lambda>r. tk_user_id r = userId \<and> tk_is_active r) (push_tokens db)))"

record history_input =
  hi_userId :: string
  hi_type :: string
  hi_title :: string
  hi_body :: string
  hi_data :: jsobj
  hi_eventId :: jsval
  hi_photoId :: jsval

text \<open>
  \<open>logNotificationHistory\<close> inserts a row with status \<open>sent\<close> and returns its id, or \<open>null\<close>
  when the insert fails.
\<close>

definition logNotificationHistory :: "store_env \<Rightarrow> store \<Rightarrow> history_input \<Rightarrow> string option \<times> store" where
  "logNotificationHistory e db notificationData =
     (if history_error e then (None, db)
      else (Some (new_uuid e),
            db\<lparr>notification_history := notification_history db @
                 [(new_uuid e,
                   \<lparr>h_user_id = hi_userId notificationData,
                    h_notification_type = hi_type notificationData,
                    h_title = hi_title notificationData,
                    h_body = hi_body notificationData,
                    h_data = hi_data notificationData,
                    h_event_id = js_or (hi_eventId notificationData) JNull,
                    h_photo_id = js_or (hi_photoId notificationData) JNull,
                    h_status = ''sent''\<rparr>)]\<rparr>))"

text \<open>
  \<open>deactivatePushToken\<close>; the argument is \<open>None\<close> when the caller passes \<open>undefined\<close>, which
  matches no row.
\<close>

definition deactivatePushToken :: "store_env \<Rightarrow> store \<Rightarrow> string option \<Rightarrow> bool \<times> store" where
  "deactivatePushToken e db token =
     (if deactivate_error e then (False, db)
      else (True,
            db\<lparr>push_tokens :=
                 map (\<lambda>r. if Some (tk_token r) = token then r\<lparr>tk_is_active := False\<rparr> else r)
                   (push_tokens db)\<rparr>))"

section \<open>Provider adapters\<close>

text \<open>
  The push SDKs are functions from the tokens of a request to the response, \<open>Inl message\<close>
  when the SDK call throws.  All messages of a batch carry the same notification, so a request
  is identified by its tokens.
\<close>

record ticket =
  status :: string
  details_error :: "string option"

record send_response =
  sr_success :: bool
  sr_messageId :: "string option"
  sr_error_code :: "string option"
  sr_error_message :: "string option"

record batch_response =
  br_successCount :: nat
  br_failureCount :: nat
  br_responses :: "send_response list"

record apns_failure =
  af_device :: string
  af_error :: "string option"

record apns_response =
  ar_sent :: "string list"
  ar_failed :: "apns_failure list"

record sdks =
  isExpoPushToken :: "string \<Rightarrow> bool"
  sendPushNotificationsAsync :: "string list \<Rightarrow> string + ticket list"
  firebase_configured :: bool
  sendMulticast :: "string list \<Rightarrow> string + batch_response"
  sendEach :: "string list \<Rightarrow> string + batch_response"
  apns_configured :: bool
  apns_send :: "string list \<Rightarrow> string + apns_response"

definition startsWith :: "string \<Rightarrow> string \<Rightarrow> bool" where
  "startsWith s p = (take (length p) s = p)"

fun str_includes :: "string \<Rightarrow> string \<Rightarrow> bool" where
  "str_includes [] p = (p = [])"
| "str_includes (c # cs) p = (startsWith (c # cs) p \<or> str_includes cs p)"

definition nth_opt :: "'a list \<Rightarrow> nat \<Rightarrow> 'a option" where
  "nth_opt xs i = (if i < length xs then Some (xs ! i) else None)"

text \<open>
  The slices \<open>xs.slice(i, i + n)\<close> for \<open>i = 0, n, 2n, \<dots>\<close> below \<open>xs.length\<close>.  Every
  batch size in the sources is a positive constant.
\<close>

function chunks_of :: "nat \<Rightarrow> 'a list \<Rightarrow> 'a list list" where
  "chunks_of n xs = (if n = 0 \<or> xs = [] then [] else take n xs # chunks_of n (drop n xs))"
  by pat_completeness auto
termination
  by (relation "measure (\<lambda>(n, xs). length xs)") auto

declare chunks_of.simps [simp del]

subsection \<open>Expo (expo-push.js)\<close>

record expo_counts =
  successCount :: nat
  failureCount :: nat
  invalidCount :: nat
  tokensToDeactivate :: "string list"
  tickets :: "ticket list"

datatype expo_batch =
    ExpoFailure string "string list"
  | ExpoSuccess expo_counts

text \<open>
  The accumulators of the loop over the chunks: \<open>successCount\<close>, \<open>failureCount\<close>,
  \<open>tokensToDeactivate\<close>, \<open>allTickets\<close>.  A message is identified with its token:
  \<open>messages.findIndex(m => m === chunk[index])\<close> finds the message at position \<open>index\<close> of the
  chunk, and \<open>validTokens\<close> has that message's token at the index found.
\<close>

type_synonym expo_acc = "nat \<times> nat \<times> string list \<times> ticket list"

definition expo_ticket_step :: "string list \<Rightarrow> nat \<times> ticket \<Rightarrow> expo_acc \<Rightarrow> expo_acc" where
  "expo_ticket_step chunk it acc =
     (case (it, acc) of ((index, ticket), (sc, fc, deact, all)) \<Rightarrow>
        if status ticket = ''ok'' then (sc + 1, fc, deact, all)
        else (sc, fc + 1,
              (if details_error ticket = Some ''DeviceNotRegistered'' \<and> index < length chunk
               then deact @ [chunk ! index] else deact),
              all))"

fun expo_send_chunks :: "(string list \<Rightarrow> string + ticket list) \<Rightarrow> string list list \<Rightarrow> expo_acc \<Rightarrow> expo_acc" where
  "expo_send_chunks send [] acc = acc"
| "expo_send_chunks send (chunk # rest) acc =
     expo_send_chunks send rest
       (case send chunk of
          Inl err \<Rightarrow> (case acc of (sc, fc, deact, all) \<Rightarrow> (sc, fc + length chunk, deact, all))
        | Inr ts \<Rightarrow>
            fold (expo_ticket_step chunk) (enumerate 0 ts)
              (case acc of (sc, fc, deact, all) \<Rightarrow> (sc, fc, deact, all @ ts)))"

definition sendBatchExpoPushNotifications :: "sdks \<Rightarrow> string list \<Rightarrow> expo_batch" where
  "sendBatchExpoPushNotifications sdk tokens =
     (let validTokens = filter (isExpoPushToken sdk) tokens;
          invalidTokens = filter (\<lambda>token. \<not> isExpoPushToken sdk token) tokens in
      if length validTokens = 0
      then ExpoFailure ''No valid Expo push tokens provided'' invalidTokens
      else
        (case expo_send_chunks (sendPushNotificationsAsync sdk) (chunks_of 100 validTokens)
                (0, 0, [], []) of
           (sc, fc, deact, all) \<Rightarrow>
             ExpoSuccess \<lparr>successCount = sc, failureCount = fc,
                          invalidCount = length invalidTokens,
                          tokensToDeactivate = deact, tickets = all\<rparr>))"

subsection \<open>Legacy FCM (fcm.js)\<close>

datatype fcm_batch =
    FcmFailure string
  | FcmSuccess "batch_response list"

text \<open>
  One \<open>sendMulticast\<close> per slice of 500 tokens; an exception of any slice leaves the loop
  and is caught by the function's \<open>catch\<close>.  The tokens that the provider reports as
  unregistered are only logged.
\<close>

fun fcm_send_chunks :: "(string list \<Rightarrow> string + batch_response) \<Rightarrow> string list list \<Rightarrow>
    batch_response list \<Rightarrow> string + batch_response list" where
  "fcm_send_chunks send [] results = Inr results"
| "fcm_send_chunks send (batch # rest) results =
     (case send batch of
        Inl err \<Rightarrow> Inl err
      | Inr response \<Rightarrow>
          fcm_send_chunks send rest
            (results @ [\<lparr>br_successCount = br_successCount response,
                          br_failureCount = br_failureCount response,
                          br_responses = br_responses response\<rparr>]))"

definition sendBatchFCMNotifications :: "sdks \<Rightarrow> string list \<Rightarrow> fcm_batch" where
  "sendBatchFCMNotifications sdk tokens =
     (if \<not> firebase_configured sdk
      then FcmFailure ''Missing Firebase configuration. Please check environment variables.''
      else (case fcm_send_chunks (sendMulticast sdk) (chunks_of 500 tokens) [] of
              Inl err \<Rightarrow> FcmFailure err
            | Inr results \<Rightarrow> FcmSuccess results))"

subsection \<open>FCM V1 (fcm-v1.js)\<close>

record v1_result =
  v1_success :: bool
  v1_messageId :: "string option"
  v1_error :: "string option"
  v1_token :: "string option"

record v1_batch =
  v1_successCount :: nat
  v1_failureCount :: nat
  v1_results :: "v1_result list"

text \<open>\<open>Inl\<close> is the exception that the function rethrows.\<close>

definition sendBatchFCMv1Notifications :: "sdks \<Rightarrow> string list \<Rightarrow> string + v1_batch" where
  "sendBatchFCMv1Notifications sdk tokens =
     (let validTokens = filter (\<lambda>token. \<not> startsWith token ''ExponentPushToken'') tokens in
      if length validTokens = 0
      then Inr \<lparr>v1_successCount = 0, v1_failureCount = length tokens,
                v1_results = map (\<lambda>t. \<lparr>v1_success = False, v1_messageId = None,
                                        v1_error = Some ''V1 API requires device tokens'',
                                        v1_token = None\<rparr>) tokens\<rparr>
      else
        (case sendEach sdk validTokens of
           Inl err \<Rightarrow> Inl err
         | Inr response \<Rightarrow>
             Inr \<lparr>v1_successCount = br_successCount response,
                  v1_failureCount = br_failureCount response,
                  v1_results =
                    map (\<lambda>(index, resp).
                           \<lparr>v1_success = sr_success resp, v1_messageId = sr_messageId resp,
                            v1_error = sr_error_message resp,
                            v1_token = nth_opt validTokens index\<rparr>)
                      (enumerate 0 (br_responses response))\<rparr>))"

subsection \<open>APNs (apns.js)\<close>

record apns_chunk =
  ac_successCount :: nat
  ac_failureCount :: nat
  ac_sent :: "string list"
  ac_failed :: "apns_failure list"

datatype apns_batch =
    ApnsFailure string
  | ApnsSuccess "apns_chunk list"

fun apns_send_chunks :: "(string list \<Rightarrow> string + apns_response) \<Rightarrow> string list list \<Rightarrow>
    apns_chunk list \<Rightarrow> string + apns_chunk list" where
  "apns_send_chunks send [] results = Inr results"
| "apns_send_chunks send (batch # rest) results =
     (case send batch of
        Inl err \<Rightarrow> Inl err
      | Inr result \<Rightarrow>
          apns_send_chunks send rest
            (results @ [\<lparr>ac_successCount = length (ar_sent result),
                          ac_failureCount = length (ar_failed result),
                          ac_sent = ar_sent result,
                          ac_failed = ar_failed result\<rparr>]))"

definition sendBatchAPNSNotifications :: "sdks \<Rightarrow> string list \<Rightarrow> apns_batch" where
  "sendBatchAPNSNotifications sdk tokens =
     (if \<not> apns_configured sdk
      then ApnsFailure ''Missing APNs configuration. Please check environment variables.''
      else (case apns_send_chunks (apns_send sdk) (chunks_of 100 tokens) [] of
              Inl err \<Rightarrow> ApnsFailure err
            | Inr results \<Rightarrow> ApnsSuccess results))"

section \<open>The notification service (notification-service.js)\<close>

record device_results =
  dr_total :: nat
  dr_successful :: nat
  dr_failed :: nat
  dr_invalidTokens :: "string option list"

text \<open>The batch adapters that a dispatch calls, in call order, with the tokens passed.\<close>

datatype adapter_call =
    ExpoBatchCall "string list"
  | FcmV1BatchCall "string list"
  | FcmBatchCall "string list"
  | ApnsBatchCall "string list"

text \<open>The bucket of a device in \<open>sendToDevices\<close>.\<close>

definition is_expo :: "device \<Rightarrow> bool" where
  "is_expo t = startsWith (d_token t) ''ExponentPushToken''"

definition has_device_token :: "device \<Rightarrow> bool" where
  "has_device_token t = (case d_device_token t of None \<Rightarrow> False | Some dt \<Rightarrow> dt \<noteq> [])"

definition is_android_v1 :: "device \<Rightarrow> bool" where
  "is_android_v1 t =
     (\<not> is_expo t \<and> d_platform t = ''android''
      \<and> (has_device_token t \<or> d_token_type t = Some ''fcm_v1''))"

definition is_android_legacy :: "device \<Rightarrow> bool" where
  "is_android_legacy t =
     (\<not> is_expo t \<and> d_platform t = ''android''
      \<and> \<not> (has_device_token t \<or> d_token_type t = Some ''fcm_v1''))"

definition is_ios :: "device \<Rightarrow> bool" where
  "is_ios t = (\<not> is_expo t \<and> d_platform t \<noteq> ''android'' \<and> d_platform t = ''ios'')"

definition send_expo_bucket :: "sdks \<Rightarrow> device list \<Rightarrow> device_results \<Rightarrow> device_results" where
  "send_expo_bucket sdk expoTokens results =
     (case sendBatchExpoPushNotifications sdk (map d_token expoTokens) of
        ExpoSuccess r \<Rightarrow>
          results\<lparr>dr_successful := dr_successful results + successCount r,
                  dr_failed := dr_failed results + failureCount r,
                  dr_invalidTokens := dr_invalidTokens results @ map Some (tokensToDeactivate r)\<rparr>
      | ExpoFailure err invalidTokens \<Rightarrow>
          results\<lparr>dr_failed := dr_failed results + length expoTokens\<rparr>)"

definition v1_send_token :: "device \<Rightarrow> string" where
  "v1_send_token t = (if has_device_token t then the (d_device_token t) else d_token t)"

definition v1_invalid :: "v1_result \<Rightarrow> bool" where
  "v1_invalid result =
     (\<not> v1_success result \<and>
      (case v1_error result of None \<Rightarrow> False | Some e \<Rightarrow> str_includes e ''invalid-registration''))"

definition send_v1_bucket :: "sdks \<Rightarrow> device list \<Rightarrow> device_results \<Rightarrow> device_results" where
  "send_v1_bucket sdk androidV1Tokens results =
     (case sendBatchFCMv1Notifications sdk (map v1_send_token androidV1Tokens) of
        Inl err \<Rightarrow> results\<lparr>dr_failed := dr_failed results + length androidV1Tokens\<rparr>
      | Inr r \<Rightarrow>
          (if v1_successCount r \<noteq> 0 then
             results\<lparr>dr_successful := dr_successful results + v1_successCount r,
                     dr_failed := dr_failed results + v1_failureCount r,
                     dr_invalidTokens := dr_invalidTokens results
                        @ map v1_token (filter v1_invalid (v1_results r))\<rparr>
           else results\<lparr>dr_failed := dr_failed results + length androidV1Tokens\<rparr>))"

definition send_fcm_bucket :: "sdks \<Rightarrow> device list \<Rightarrow> device_results \<Rightarrow> device_results" where
  "send_fcm_bucket sdk androidTokens results =
     (case sendBatchFCMNotifications sdk (map d_token androidTokens) of
        FcmSuccess batches \<Rightarrow>
          fold (\<lambda>batch res. res\<lparr>dr_successful := dr_successful res + br_successCount batch,
                                  dr_failed := dr_failed res + br_failureCount batch\<rparr>)
            batches results
      | FcmFailure err \<Rightarrow> results\<lparr>dr_failed := dr_failed results + length androidTokens\<rparr>)"

definition apns_invalid :: "apns_failure \<Rightarrow> bool" where
  "apns_invalid failure =
     (af_error failure = Some ''BadDeviceToken'' \<or> af_error failure = Some ''Unregistered'')"

definition send_apns_bucket :: "sdks \<Rightarrow> device list \<Rightarrow> device_results \<Rightarrow> device_results" where
  "send_apns_bucket sdk iosTokens results =
     (case sendBatchAPNSNotifications sdk (map d_token iosTokens) of
        ApnsSuccess batches \<Rightarrow>
          fold (\<lambda>batch res. res\<lparr>dr_successful := dr_successful res + ac_successCount batch,
                                  dr_failed := dr_failed res + ac_failureCount batch,
                                  dr_invalidTokens := dr_invalidTokens res
                                     @ map (\<lambda>f. Some (af_device f)) (filter apns_invalid (ac_failed batch))\<rparr>)
            batches results
      | ApnsFailure err \<Rightarrow> results\<lparr>dr_failed := dr_failed results + length iosTokens\<rparr>)"

text \<open>
  \<open>sendToDevices\<close> returns the counts, the store after the deactivations, and the adapter
  calls it made.
\<close>

definition sendToDevices :: "store_env \<Rightarrow> sdks \<Rightarrow> store \<Rightarrow> device list \<Rightarrow>
    device_results \<times> store \<times> adapter_call list" where
  "sendToDevices e sdk db tokens =
     (let expoTokens = filter is_expo tokens;
          androidTokens = filter is_android_legacy tokens;
          androidV1Tokens = filter is_android_v1 tokens;
          iosTokens = filter is_ios tokens;
          r0 = \<lparr>dr_total = length tokens, dr_successful = 0, dr_failed = 0, dr_invalidTokens = []\<rparr>;
          r1 = (if length expoTokens > 0 then send_expo_bucket sdk expoTokens r0 else r0);
          r2 = (if length androidV1Tokens > 0 then send_v1_bucket sdk androidV1Tokens r1 else r1);
          r3 = (if length androidTokens > 0 then send_fcm_bucket sdk androidTokens r2 else r2);
          r4 = (if length iosTokens > 0 then send_apns_bucket sdk iosTokens r3 else r3);
          db' = fold (\<lambda>token d. snd (deactivatePushToken e d token)) (dr_invalidTokens r4) db;
          calls = (if length expoTokens > 0 then [ExpoBatchCall (map d_token expoTokens)] else [])
                @ (if length androidV1Tokens > 0
                   then [FcmV1BatchCall (map v1_send_token androidV1Tokens)] else [])
                @ (if length androidTokens > 0 then [FcmBatchCall (map d_token androidTokens)] else [])
                @ (if length iosTokens > 0 then [ApnsBatchCall (map d_token iosTokens)] else [])
      in (r4, db', calls))"

subsection \<open>Rate limiting\<close>

text \<open>
  \<open>rateLimits\<close> maps the key \<open>userId:type\<close> to \<open>(count, resetTime)\<close>.  \<open>isRateLimited\<close> resets
  the object it got from the map when the window has expired, so the reset is visible in the
  map; an object made for an absent key is not stored.
\<close>

type_synonym rate_limits = "string \<rightharpoonup> (nat \<times> int)"

definition maxRequests :: "(string \<times> nat) list" where
  "maxRequests =
    [(''photo_liked'', 10), (''event_live'', 1), (''event_starting'', 1),
     (''community_milestone'', 3), (''peak_activity'', 2), (''default'', 5)]"

definition rate_limit_of :: "string \<Rightarrow> nat" where
  "rate_limit_of type =
     (case map_of maxRequests type of
        None \<Rightarrow> 5
      | Some n \<Rightarrow> (if n \<noteq> 0 then n else 5))"

definition rate_key :: "string \<Rightarrow> string \<Rightarrow> string" where
  "rate_key userId type = userId @ '':'' @ type"

definition isRateLimited :: "int \<Rightarrow> rate_limits \<Rightarrow> string \<Rightarrow> string \<Rightarrow> bool \<times> rate_limits" where
  "isRateLimited now rl userId type =
     (let key = rate_key userId type;
          limits = (case rl key of None \<Rightarrow> (0, now + 60000) | Some l \<Rightarrow> l);
          limits' = (if now > snd limits then (0, now + 60000) else limits);
          rl' = (case rl key of None \<Rightarrow> rl | Some l \<Rightarrow> rl(key \<mapsto> limits'))
      in (fst limits' \<ge> rate_limit_of type, rl'))"

definition updateRateLimit :: "int \<Rightarrow> rate_limits \<Rightarrow> string \<Rightarrow> string \<Rightarrow> rate_limits" where
  "updateRateLimit now rl userId type =
     (let key = rate_key userId type;
          limits = (case rl key of None \<Rightarrow> (0, now + 60000) | Some l \<Rightarrow> l);
          limits' = (if now > snd limits then (1, now + 60000) else (fst limits + 1, snd limits))
      in rl(key \<mapsto> limits'))"

text \<open>
  The window that is in force for a key at a time, as both functions compute it in their
  first steps: the stored count and end while the end has not passed, and otherwise the
  count 0 with an end 60 seconds later.
\<close>

definition window_at :: "int \<Rightarrow> rate_limits \<Rightarrow> string \<Rightarrow> nat \<times> int" where
  "window_at now rl key =
     (case rl key of
        None \<Rightarrow> (0, now + 60000)
      | Some (c, reset) \<Rightarrow> if now > reset then (0, now + 60000) else (c, reset))"

subsection \<open>Dispatch to one user\<close>

text \<open>
  The three shapes of the object that \<open>sendNotification\<close> returns:
  \<open>{success, reason}\<close>, \<open>{success: true, results, historyId, devicesReached}\<close> and
  \<open>{success: false, error}\<close>.
\<close>

datatype send_result =
    Reason bool string
  | Delivered device_results "string option" nat
  | Failed string

fun success :: "send_result \<Rightarrow> bool" where
  "success (Reason b r) = b"
| "success (Delivered res h n) = True"
| "success (Failed msg) = False"

fun reason :: "send_result \<Rightarrow> string option" where
  "reason (Reason b r) = Some r"
| "reason (Delivered res h n) = None"
| "reason (Failed msg) = None"

fun error :: "send_result \<Rightarrow> string option" where
  "error (Reason b r) = None"
| "error (Delivered res h n) = None"
| "error (Failed msg) = Some msg"


text \<open>
  What a dispatch reads from outside: the store's environment, the SDKs, \<open>Date.now()\<close> and
  \<open>new Date().toISOString()\<close>.  A dispatch is taken to be instantaneous: every read of the
  clock in one call gives the same time.
\<close>

record world =
  w_store :: store_env
  w_sdks :: sdks
  w_now :: int
  w_iso :: string

text \<open>
  The state that a dispatch changes: the service's \<open>rateLimits\<close>, the store, and the log of
  adapter calls.
\<close>

record system =
  rateLimits :: rate_limits
  db :: store
  adapter_calls :: "adapter_call list"

text \<open>\<open>'a_b_c'.replace('_', '')\<close> removes the first underscore.\<close>

fun remove_first :: "char \<Rightarrow> string \<Rightarrow> string" where
  "remove_first c [] = []"
| "remove_first c (x # xs) = (if x = c then xs else x # remove_first c xs)"

definition typeEnabled :: "jsobj \<Rightarrow> string \<Rightarrow> jsval" where
  "typeEnabled preferences type =
     js_coalesce
       (js_coalesce (js_get preferences (remove_first CHR ''_'' type))
          (case map_of DEFAULT_SETTINGS type of
             None \<Rightarrow> JUndefined
           | Some st \<Rightarrow> JBool (s_enabled st)))
       (JBool True)"

definition batchEnabled :: "string \<Rightarrow> bool" where
  "batchEnabled type =
     (case map_of DEFAULT_SETTINGS type of None \<Rightarrow> False | Some st \<Rightarrow> s_batchEnabled st)"

definition checkBatching :: "string \<Rightarrow> string \<Rightarrow> jsobj \<Rightarrow> bool" where
  "checkBatching userId type data = False"

definition sendNotification :: "world \<Rightarrow> system \<Rightarrow> string \<Rightarrow> string \<Rightarrow> jsobj \<Rightarrow> send_result \<times> system" where
  "sendNotification w sys userId type data =
     (case validateNotificationData type data of
        Inl msg \<Rightarrow> (Failed msg, sys)
      | Inr ok \<Rightarrow>
          (case shouldSendNotification (w_store w) (db sys) userId of
             (canSend, db1) \<Rightarrow>
               if \<not> canSend then (Reason False ''user_preferences'', sys\<lparr>db := db1\<rparr>)
               else
                 (let preferences = getUserNotificationPreferences (w_store w) db1 userId in
                  if \<not> truthy (typeEnabled preferences type)
                  then (Reason False ''type_disabled'', sys\<lparr>db := db1\<rparr>)
                  else
                    (case isRateLimited (w_now w) (rateLimits sys) userId type of
                       (limited, rl1) \<Rightarrow>
                         if limited
                         then (Reason False ''rate_limited'', sys\<lparr>rateLimits := rl1, db := db1\<rparr>)
                         else
                           (let tokens = getUserPushTokens (w_store w) db1 userId in
                            if length tokens = 0
                            then (Reason False ''no_tokens'', sys\<lparr>rateLimits := rl1, db := db1\<rparr>)
                            else if truthy (js_get preferences ''batch_mode'') \<and> batchEnabled type
                                    \<and> checkBatching userId type data
                            then (Reason True ''batched'', sys\<lparr>rateLimits := rl1, db := db1\<rparr>)
                            else
                              (case buildNotification (w_iso w) type data of
                                 Inl msg \<Rightarrow> (Failed msg, sys\<lparr>rateLimits := rl1, db := db1\<rparr>)
                               | Inr notification \<Rightarrow>
                                   (case sendToDevices (w_store w) (w_sdks w) db1 tokens of
                                      (results, db2, calls) \<Rightarrow>
                                        (case logNotificationHistory (w_store w) db2
                                                \<lparr>hi_userId = userId,
                                                 hi_type = n_type notification,
                                                 hi_title = n_title notification,
                                                 hi_body = n_body notification,
                                                 hi_data = n_data notification,
                                                 hi_eventId = js_or (js_get data ''eventId'') JNull,
                                                 hi_photoId = js_or (js_get data ''photoId'') JNull\<rparr> of
                                           (historyId, db3) \<Rightarrow>
                                             (Delivered results historyId (dr_successful results),
                                              \<lparr>rateLimits = updateRateLimit (w_now w) rl1 userId type,
                                               db = db3,
                                               adapter_calls = adapter_calls sys @ calls\<rparr>)))))))))"

subsection \<open>Successive dispatches\<close>


section \<open>Concrete scenarios\<close>

text \<open>
  A store in which user \<open>u1\<close> has one active Expo token and no preferences row, and user \<open>u2\<close>
  has no token; no request to the store fails, it is noon in every time zone, and every push
  SDK call throws.
\<close>

definition ex_env :: store_env where
  "ex_env =
     \<lparr>sql_now = ''2024-01-01 12:00:00'', session_time = 12 * 3600, local_time = (\<lambda>z. 12 * 3600),
      new_uuid = ''id-1'',
      rpc_error = False, prefs_error = False, tokens_error = False, history_error = False,
      deactivate_error = False\<rparr>"

definition expo_token_shape :: "string \<Rightarrow> bool" where
  "expo_token_shape t = (startsWith t ''ExponentPushToken['' \<and> last t = CHR '']'')"

definition ex_sdks_down :: sdks where
  "ex_sdks_down =
     \<lparr>isExpoPushToken = expo_token_shape,
      sendPushNotificationsAsync = (\<lambda>ts. Inl ''network down''),
      firebase_configured = False,
      sendMulticast = (\<lambda>ts. Inl ''network down''),
      sendEach = (\<lambda>ts. Inl ''network down''),
      apns_configured = False,
      apns_send = (\<lambda>ts. Inl ''network down'')\<rparr>"

definition ex_world :: world where
  "ex_world = \<lparr>w_store = ex_env, w_sdks = ex_sdks_down, w_now = 1000,
                w_iso = ''2024-01-01T12:00:00.000Z''\<rparr>"

definition ex_store :: store where
  "ex_store =
     \<lparr>notification_preferences = Map.empty,
      push_tokens =
        [\<lparr>tk_user_id = ''u1'', tk_token = ''ExponentPushToken[abc]'', tk_platform = ''ios'',
          tk_device_id = ''d1'', tk_is_active = True, tk_token_type = None,
          tk_device_token = None\<rparr>],
      notification_history = []\<rparr>"

definition ex_system :: system where
  "ex_system = \<lparr>rateLimits = Map.empty, db = ex_store, adapter_calls = []\<rparr>"

definition ex_data :: jsobj where
  "ex_data = [(''eventName'', JStr ''Party'')]"

text \<open>A \<open>photo_liked\<close> payload with both required fields present and a like count of zero.\<close>

definition ex_zero_likes :: jsobj where
  "ex_zero_likes = [(''eventName'', JStr ''Party''), (''likeCount'', JNum 0)]"


definition ex_world_later :: world where
  "ex_world_later = ex_world\<lparr>w_now := 70000\<rparr>"

text \<open>
  Push SDKs that answer every request: Expo reports \<open>DeviceNotRegistered\<close> for the token
  \<open>ExponentPushToken[gone]\<close> and \<open>ok\<close> for every other token; FCM and APNs accept every
  token.
\<close>

definition ex_ticket :: "string \<Rightarrow> ticket" where
  "ex_ticket token =
     (if token = ''ExponentPushToken[gone]''
      then \<lparr>status = ''error'', details_error = Some ''DeviceNotRegistered''\<rparr>
      else \<lparr>status = ''ok'', details_error = None\<rparr>)"

definition ex_accept :: "string list \<Rightarrow> batch_response" where
  "ex_accept batch =
     \<lparr>br_successCount = length batch, br_failureCount = 0,
      br_responses = map (\<lambda>t. \<lparr>sr_success = True, sr_messageId = Some t, sr_error_code = None,
                                  sr_error_message = None\<rparr>) batch\<rparr>"

definition ex_sdks_up :: sdks where
  "ex_sdks_up =
     \<lparr>isExpoPushToken = expo_token_shape,
      sendPushNotificationsAsync = (\<lambda>chunk. Inr (map ex_ticket chunk)),
      firebase_configured = True,
      sendMulticast = (\<lambda>batch. Inr (ex_accept batch)),
      sendEach = (\<lambda>batch. Inr (ex_accept batch)),
      apns_configured = True,
      apns_send = (\<lambda>batch. Inr \<lparr>ar_sent = batch, ar_failed = []\<rparr>)\<rparr>"

text \<open>
  The world \<open>ex_world\<close> with a store that answers every call of the stored procedure with an
  error, and an \<open>event_live\<close> payload whose event name is an object with a key \<open>toString\<close>.
\<close>

definition ex_world_rpc_down :: world where
  "ex_world_rpc_down = ex_world\<lparr>w_store := ex_env\<lparr>rpc_error := True\<rparr>\<rparr>"

definition ex_object_name :: jsobj where
  "ex_object_name = [(''eventName'', JObj [(''toString'', JNum 1)])]"





text \<open>A batch with a registered token, an unregistered one and a malformed one.\<close>

definition ex_tokens :: "string list" where
  "ex_tokens = [''ExponentPushToken[abc]'', ''ExponentPushToken[gone]'', ''bad-token'']"

section \<open>The key-value cache (redis.js)\<close>

text \<open>
  The cache holds JSON objects under string keys.  The model is typed: a cached object is its
  payload together with the two fields that \<open>setWithAutoExpiry\<close> adds, \<open>cached_at\<close> and
  \<open>expires_at\<close>, as milliseconds since the epoch (the source stores ISO strings and reads them
  back with \<open>new Date\<close>); an object written without them has \<open>None\<close> there.  The store in the
  model is what Redis holds at the time of the call: Redis removes a key when its TTL has passed,
  between calls.  \<open>safeRedisOperation\<close> turns every failure of Redis into the fallback value;
  \<open>up\<close> says whether the operations of a call succeed.
\<close>

record 'a cache_entry =
  c_value :: 'a
  cached_at :: "int option"
  expires_at :: "int option"

record 'a redis =
  up :: bool
  entries :: "string \<rightharpoonup> 'a cache_entry"

definition getCachedData :: "'a redis \<Rightarrow> string \<Rightarrow> 'a cache_entry option" where
  "getCachedData r key = (if up r then entries r key else None)"

definition setCachedData :: "'a redis \<Rightarrow> string \<Rightarrow> 'a cache_entry \<Rightarrow> 'a redis" where
  "setCachedData r key data = (if up r then r\<lparr>entries := (entries r)(key \<mapsto> data)\<rparr> else r)"

definition setWithAutoExpiry :: "int \<Rightarrow> 'a redis \<Rightarrow> string \<Rightarrow> 'a \<Rightarrow> int \<Rightarrow> 'a redis" where
  "setWithAutoExpiry now r key data ttlSeconds =
     setCachedData r key
       \<lparr>c_value = data, cached_at = Some now, expires_at = Some (now + ttlSeconds * 1000)\<rparr>"

text \<open>
  \<open>getWithAge\<close> returns the object with \<open>cache_age\<close>, \<open>cache_ttl\<close> and \<open>is_expired\<close> added, or
  \<open>null\<close> when there is no object or it has no \<open>cached_at\<close>.
\<close>

record 'a aged =
  a_entry :: "'a cache_entry"
  cache_age :: int
  cache_ttl :: int
  is_expired :: bool

definition getWithAge :: "int \<Rightarrow> 'a redis \<Rightarrow> string \<Rightarrow> 'a aged option" where
  "getWithAge now r key =
     (case getCachedData r key of
        None \<Rightarrow> None
      | Some data \<Rightarrow>
          (case cached_at data of
             None \<Rightarrow> None
           | Some at \<Rightarrow>
               (let age = (now - at) div 1000;
                    ttl = (case expires_at data of
                             None \<Rightarrow> 0
                           | Some ex \<Rightarrow> max 0 ((ex - now) div 1000))
                in Some \<lparr>a_entry = data, cache_age = age, cache_ttl = ttl, is_expired = (ttl \<le> 0)\<rparr>)))"

section \<open>The participants cache (participants-cache.js)\<close>

record user =
  u_id :: string
  u_name :: string
  u_email :: "string option"
  u_profile_pic :: "string option"
  u_created_at :: "string option"

record participant =
  p_id :: string
  p_event_id :: string
  p_user_id :: string
  p_joined_at :: string
  p_photo_count :: int
  p_last_activity :: "string option"
  p_users :: user

record participants_page =
  pg_participants :: "participant list"
  pg_total_count :: int
  pg_page :: int
  pg_limit :: int
  pg_total_pages :: int
  pg_has_more :: bool
  pg_source :: string
  pg_generated_at :: string

text \<open>
  The queries of \<open>fetchParticipantsFromDatabase\<close>; \<open>Inl\<close> is the error object of the answer.
  The first query asks for the rows \<open>from \<dots> to\<close> of an event with the exact count, the second
  for the legacy \<open>participants\<close> array of the event (\<open>None\<close> when the column is null or the
  answer has no data) and its \<open>participant_names\<close>, the third for the users with the given ids.
\<close>

record legacy_event =
  le_participants :: "string list option"
  le_participant_names :: "(string \<times> string) list"

record participants_db =
  event_participants_range :: "string \<Rightarrow> int \<Rightarrow> int \<Rightarrow> string + (participant list \<times> int)"
  events_legacy :: "string \<Rightarrow> string + legacy_event"
  users_in :: "string list \<Rightarrow> string + user list"

text \<open>\<open>Math.ceil(count / limit)\<close> for a positive \<open>limit\<close>.\<close>

definition ceil_div :: "int \<Rightarrow> int \<Rightarrow> int" where
  "ceil_div a b = - ((- a) div b)"

text \<open>\<open>allParticipants.slice(offset, offset + limit)\<close> for a non-negative \<open>offset\<close>.\<close>

definition slice :: "'a list \<Rightarrow> int \<Rightarrow> int \<Rightarrow> 'a list" where
  "slice xs start stop = take (nat (stop - start)) (drop (nat start) xs)"

definition legacy_participant :: "string \<Rightarrow> legacy_event \<Rightarrow> user list \<Rightarrow> string \<Rightarrow> int \<Rightarrow> nat \<times> string \<Rightarrow> participant" where
  "legacy_participant stamp eventData usersData eventId offset iu =
     (case iu of (index, userId) \<Rightarrow>
        \<lparr>p_id = ''legacy_'' @ userId @ ''_'' @ show_int (offset + int index),
         p_event_id = eventId,
         p_user_id = userId,
         p_joined_at = stamp,
         p_photo_count = 0,
         p_last_activity = None,
         p_users =
           (case find (\<lambda>u. u_id u = userId) usersData of
              Some u \<Rightarrow> u
            | None \<Rightarrow>
                \<lparr>u_id = userId,
                 u_name = (case map_of (le_participant_names eventData) userId of
                             Some name \<Rightarrow> (if name \<noteq> [] then name else ''User '' @ userId)
                           | None \<Rightarrow> ''User '' @ userId),
                 u_email = None, u_profile_pic = None, u_created_at = None\<rparr>)\<rparr>)"

definition fetchParticipantsFromDatabase :: "participants_db \<Rightarrow> string \<Rightarrow> string \<Rightarrow> int \<Rightarrow> int \<Rightarrow> string + participants_page" where
  "fetchParticipantsFromDatabase pdb stamp eventId page lim =
     (let offset = (page - 1) * lim;
          normalized = event_participants_range pdb eventId offset (offset + lim - 1)
      in case (case normalized of
                 Inr (rows, count) \<Rightarrow> if length rows > 0 then Some (rows, count) else None
               | Inl err \<Rightarrow> None) of
           Some (normalizedData, count) \<Rightarrow>
             Inr \<lparr>pg_participants = normalizedData, pg_total_count = count, pg_page = page,
                  pg_limit = lim, pg_total_pages = ceil_div count lim,
                  pg_has_more = (count > offset + lim), pg_source = ''normalized'',
                  pg_generated_at = stamp\<rparr>
         | None \<Rightarrow>
             (case events_legacy pdb eventId of
                Inl eventError \<Rightarrow> Inl eventError
              | Inr eventData \<Rightarrow>
                  (case (case le_participants eventData of
                           None \<Rightarrow> None
                         | Some ps \<Rightarrow> if length ps = 0 then None else Some ps) of
                     None \<Rightarrow>
                       Inr \<lparr>pg_participants = [], pg_total_count = 0, pg_page = page,
                            pg_limit = lim, pg_total_pages = 0, pg_has_more = False,
                            pg_source = ''legacy_empty'', pg_generated_at = stamp\<rparr>
                   | Some allParticipants \<Rightarrow>
                       (let totalCount = int (length allParticipants);
                            paginatedUserIds = slice allParticipants offset (offset + lim)
                        in case users_in pdb paginatedUserIds of
                             Inl usersError \<Rightarrow> Inl usersError
                           | Inr usersData \<Rightarrow>
                               Inr \<lparr>pg_participants =
                                      map (legacy_participant stamp eventData usersData eventId offset)
                                        (enumerate 0 paginatedUserIds),
                                    pg_total_count = totalCount, pg_page = page, pg_limit = lim,
                                    pg_total_pages = ceil_div totalCount lim,
                                    pg_has_more = (totalCount > offset + lim),
                                    pg_source = ''legacy'', pg_generated_at = stamp\<rparr>))))"

text \<open>
  The summary that \<open>updateParticipantMetadataCache\<close> writes under the metadata key.  A page
  key ends in the decimal \<open>limit\<close> and a metadata key in \<open>:metadata\<close>, so the two kinds of key
  never coincide and each kind has its own typed store.  The counters of the cache statistics
  are a third one.
\<close>

record metadata_summary =
  ms_event_id :: string
  ms_total_count :: int
  ms_last_updated :: string
  ms_source :: string

record participants_kv =
  kv_pages :: "participants_page redis"
  kv_metadata :: "metadata_summary redis"
  kv_counters :: "string \<Rightarrow> nat"

definition PARTICIPANTS_TTL :: int where "PARTICIPANTS_TTL = 30 * 60"
definition PARTICIPANTS_METADATA_TTL :: int where "PARTICIPANTS_METADATA_TTL = 15 * 60"

definition participants_key :: "string \<Rightarrow> int \<Rightarrow> int \<Rightarrow> string" where
  "participants_key eventId page lim =
     ''participants:'' @ eventId @ '':page:'' @ show_int page @ '':'' @ show_int lim"

definition metadata_key :: "string \<Rightarrow> string" where
  "metadata_key eventId = ''participants:'' @ eventId @ '':metadata''"

text \<open>\<open>incrementCounter\<close> on the store of the pages' Redis; 0 is the fallback.\<close>

definition incrementCounter :: "participants_kv \<Rightarrow> string \<Rightarrow> participants_kv" where
  "incrementCounter kv key =
     (if up (kv_pages kv) then kv\<lparr>kv_counters := (kv_counters kv)(key := kv_counters kv key + 1)\<rparr>
      else kv)"

definition recordCacheHit :: "participants_kv \<Rightarrow> string \<Rightarrow> string \<Rightarrow> participants_kv" where
  "recordCacheHit kv eventId type =
     incrementCounter kv (''cache_stats:'' @ eventId @ '':'' @ type @ '':hits'')"

definition recordCacheMiss :: "participants_kv \<Rightarrow> string \<Rightarrow> string \<Rightarrow> participants_kv" where
  "recordCacheMiss kv eventId type =
     incrementCounter kv (''cache_stats:'' @ eventId @ '':'' @ type @ '':misses'')"

definition updateParticipantMetadataCache :: "int \<Rightarrow> string \<Rightarrow> participants_kv \<Rightarrow> string \<Rightarrow> participants_page \<Rightarrow> participants_kv" where
  "updateParticipantMetadataCache now stamp kv eventId participantData =
     kv\<lparr>kv_metadata :=
          setWithAutoExpiry now (kv_metadata kv) (metadata_key eventId)
            \<lparr>ms_event_id = eventId, ms_total_count = pg_total_count participantData,
             ms_last_updated = stamp, ms_source = pg_source participantData\<rparr>
            PARTICIPANTS_METADATA_TTL\<rparr>"

text \<open>
  The three shapes of the object that \<open>getEventParticipants\<close> returns: the cached object with
  \<open>cached: true, cache_source: 'redis'\<close>; the fetched page with \<open>cached: false,
  cache_source: 'database'\<close>; the cached object with \<open>cached: true, stale: true,
  cache_source: 'stale_redis'\<close> and a \<open>warning\<close>.
\<close>

datatype 'a cache_read =
    FromCache "'a aged"
  | FromDatabase 'a
  | FromStale "'a cache_entry" string

fun cached :: "'a cache_read \<Rightarrow> bool" where
  "cached (FromCache a) = True"
| "cached (FromDatabase p) = False"
| "cached (FromStale c w) = True"

fun stale :: "'a cache_read \<Rightarrow> bool" where
  "stale (FromCache a) = False"
| "stale (FromDatabase p) = False"
| "stale (FromStale c w) = True"

fun warning :: "'a cache_read \<Rightarrow> string option" where
  "warning (FromCache a) = None"
| "warning (FromDatabase p) = None"
| "warning (FromStale c w) = Some w"

fun cache_source :: "'a cache_read \<Rightarrow> string" where
  "cache_source (FromCache a) = ''redis''"
| "cache_source (FromDatabase p) = ''database''"
| "cache_source (FromStale c w) = ''stale_redis''"

text \<open>
  \<open>getEventParticipants\<close>: \<open>Inl\<close> is the exception thrown, the second component the key-value
  store after the call.  The fresh hit of the \<open>try\<close> block, if there is one.
\<close>

definition fresh_hit :: "int \<Rightarrow> participants_kv \<Rightarrow> string \<Rightarrow> bool \<Rightarrow> participants_page aged option" where
  "fresh_hit now kv cacheKey forceRefresh =
     (if forceRefresh then None
      else (case getWithAge now (kv_pages kv) cacheKey of
              None \<Rightarrow> None
            | Some cachedData \<Rightarrow> if \<not> is_expired cachedData then Some cachedData else None))"

definition getEventParticipants :: "participants_db \<Rightarrow> int \<Rightarrow> string \<Rightarrow> participants_kv \<Rightarrow> string \<Rightarrow> int \<Rightarrow> int \<Rightarrow> bool \<Rightarrow>
    (string + participants_page cache_read) \<times> participants_kv" where
  "getEventParticipants pdb now stamp kv eventId page lim forceRefresh =
     (if eventId = [] \<or> page < 1 \<or> lim < 1 \<or> lim > 100 then (Inl ''Invalid parameters'', kv)
      else
        (let cacheKey = participants_key eventId page lim in
         case fresh_hit now kv cacheKey forceRefresh of
           Some cachedData \<Rightarrow>
             (Inr (FromCache cachedData), recordCacheHit kv eventId ''participants'')
         | None \<Rightarrow>
             (case fetchParticipantsFromDatabase pdb stamp eventId page lim of
                Inr result \<Rightarrow>
                  (let kv1 = kv\<lparr>kv_pages :=
                               setWithAutoExpiry now (kv_pages kv) cacheKey result PARTICIPANTS_TTL\<rparr>;
                       kv2 = updateParticipantMetadataCache now stamp kv1 eventId result;
                       kv3 = recordCacheMiss kv2 eventId ''participants''
                   in (Inr (FromDatabase result), kv3))
              | Inl err \<Rightarrow>
                  (case getCachedData (kv_pages kv) cacheKey of
                     Some staleData \<Rightarrow>
                       (Inr (FromStale staleData
                               ''Serving cached data due to temporary database issues''), kv)
                   | None \<Rightarrow> (Inl err, kv)))))"

section \<open>The photo URL cache (photo-url-cache.js)\<close>

definition MAX_URLS_PER_REQUEST :: nat where "MAX_URLS_PER_REQUEST = 100"
definition DEFAULT_EXPIRY :: int where "DEFAULT_EXPIRY = 3600"
definition MAX_EXPIRY :: int where "MAX_EXPIRY = 24 * 60 * 60"

subsection \<open>Signed URLs in batch\<close>

text \<open>
  \<open>cleanPath\<close> replaces every character outside \<open>[a-zA-Z0-9.\-_/]\<close> by an underscore.
\<close>

definition path_char :: "char \<Rightarrow> bool" where
  "path_char c =
     (let n = (of_char c :: nat) in
      (97 \<le> n \<and> n \<le> 122) \<or> (65 \<le> n \<and> n \<le> 90) \<or> (48 \<le> n \<and> n \<le> 57)
      \<or> c = CHR ''.'' \<or> c = CHR ''-'' \<or> c = CHR ''_'' \<or> c = CHR ''/'')"

definition cleanPath :: "string \<Rightarrow> string" where
  "cleanPath path = map (\<lambda>c. if path_char c then c else CHR ''_'') path"

definition url_key :: "string \<Rightarrow> string" where
  "url_key path = ''photo_urls:'' @ cleanPath path"

text \<open>
  The object storage: the answer of \<open>createSignedUrl(path, expiresIn)\<close> is an error, data
  with or without a \<open>signedUrl\<close>, or an exception.
\<close>

datatype sign_outcome = SignError string | SignData "string option" | SignThrows string

record sign_result =
  gr_path :: string
  gr_url :: "string option"
  gr_error :: "string option"

definition sign_one :: "(string \<Rightarrow> int \<Rightarrow> sign_outcome) \<Rightarrow> int \<Rightarrow> string \<Rightarrow> sign_result" where
  "sign_one createSignedUrl expiresIn path =
     (case createSignedUrl path expiresIn of
        SignError message \<Rightarrow> \<lparr>gr_path = path, gr_url = None, gr_error = Some message\<rparr>
      | SignData None \<Rightarrow> \<lparr>gr_path = path, gr_url = None, gr_error = Some ''No URL returned''\<rparr>
      | SignData (Some signedUrl) \<Rightarrow>
          (if signedUrl = []
           then \<lparr>gr_path = path, gr_url = None, gr_error = Some ''No URL returned''\<rparr>
           else \<lparr>gr_path = path, gr_url = Some signedUrl, gr_error = None\<rparr>)
      | SignThrows message \<Rightarrow> \<lparr>gr_path = path, gr_url = None, gr_error = Some message\<rparr>)"

text \<open>
  An object with string keys is an association list; \<open>obj[key] = value\<close> is \<open>AList.update\<close>,
  which keeps the position of a key that is there and appends a new one.  Every promise of a
  sub-batch is fulfilled, since \<open>sign_one\<close> catches the exception of its path.
\<close>

type_synonym url_map = "(string \<times> string) list"

definition collect_batch :: "sign_result list \<Rightarrow> url_map \<Rightarrow> url_map" where
  "collect_batch batchResults urls =
     fold (\<lambda>result acc.
             (case gr_url result of
                Some url \<Rightarrow> (if url \<noteq> [] then AList.update (gr_path result) url acc else acc)
              | None \<Rightarrow> acc))
       batchResults urls"

definition generateSignedUrlsBatch :: "(string \<Rightarrow> int \<Rightarrow> sign_outcome) \<Rightarrow> string list \<Rightarrow> int \<Rightarrow> url_map" where
  "generateSignedUrlsBatch createSignedUrl photoPaths expiresIn =
     fold (\<lambda>batch urls. collect_batch (map (sign_one createSignedUrl expiresIn) batch) urls)
       (chunks_of 20 photoPaths) []"

text \<open>
  The stores of this layer: the signed URL of a path under \<open>photo_urls:\<close>, the aggregate of an
  event under \<open>photo_batch:\<close>, the page of an event under \<open>event_photos:\<close>, and the counters of
  the statistics.  An object under \<open>photo_urls:\<close> is written by \<open>setBatch\<close> with an
  \<open>expires_at\<close> of its own and without \<open>cached_at\<close>.
\<close>

record signed_entry =
  se_path :: string
  signed_url :: string
  se_generated_at :: string

record event_batch =
  eb_event_id :: string
  eb_urls :: url_map
  eb_url_count :: nat
  eb_expires_in :: int
  eb_generated_at :: string

record photo =
  ph_id :: string
  photo_url :: string
  ph_uploaded_by :: string
  ph_created_at :: string
  ph_like_count :: int
  ph_moderation_status :: string

record enriched_photo =
  ep_photo :: photo
  url_cached :: bool
  url_generated_at :: string

record url_stats =
  us_cached_count :: nat
  us_generated_count :: nat
  us_cache_hit_rate :: int

record event_photos =
  er_photos :: "enriched_photo list"
  er_urls :: url_map
  er_total_count :: int
  er_page :: int
  er_limit :: int
  er_total_pages :: int
  er_url_stats :: url_stats
  er_generated_at :: string

record photo_kv =
  pk_urls :: "signed_entry redis"
  pk_batches :: "event_batch redis"
  pk_events :: "event_photos redis"
  pk_counters :: "string \<Rightarrow> nat"

definition bump :: "photo_kv \<Rightarrow> string \<Rightarrow> photo_kv" where
  "bump kv key =
     (if up (pk_urls kv) then kv\<lparr>pk_counters := (pk_counters kv)(key := pk_counters kv key + 1)\<rparr>
      else kv)"

definition recordPhotoCacheHit :: "photo_kv \<Rightarrow> string \<Rightarrow> photo_kv" where
  "recordPhotoCacheHit kv type = bump kv (''cache_stats:photo_urls:'' @ type @ '':hits'')"

definition recordPhotoCacheMiss :: "photo_kv \<Rightarrow> string \<Rightarrow> nat \<Rightarrow> photo_kv" where
  "recordPhotoCacheMiss kv type count =
     ((\<lambda>k. bump k (''cache_stats:photo_urls:'' @ type @ '':misses'')) ^^ count) kv"

text \<open>\<open>getBatch\<close> answers for the keys asked; with Redis down every answer is absent.\<close>

definition getBatch :: "'a redis \<Rightarrow> string list \<Rightarrow> string \<Rightarrow> 'a cache_entry option" where
  "getBatch r keys key = (if up r \<and> key \<in> set keys then entries r key else None)"

definition setBatch :: "'a redis \<Rightarrow> (string \<times> 'a cache_entry) list \<Rightarrow> 'a redis" where
  "setBatch r dataMap =
     (if up r then r\<lparr>entries := fold (\<lambda>(key, data) m. m(key \<mapsto> data)) dataMap (entries r)\<rparr> else r)"

definition cacheSignedUrls :: "int \<Rightarrow> string \<Rightarrow> photo_kv \<Rightarrow> url_map \<Rightarrow> int \<Rightarrow> photo_kv" where
  "cacheSignedUrls now stamp kv urls expiresIn =
     kv\<lparr>pk_urls :=
          setBatch (pk_urls kv)
            (fold (\<lambda>(path, signedUrl) cacheData.
                     AList.update (url_key path)
                       \<lparr>c_value = \<lparr>se_path = path, signed_url = signedUrl, se_generated_at = stamp\<rparr>,
                        cached_at = None, expires_at = Some (now + expiresIn * 1000)\<rparr> cacheData)
               urls [])\<rparr>"

definition cacheEventPhotoBatch :: "int \<Rightarrow> string \<Rightarrow> photo_kv \<Rightarrow> string \<Rightarrow> url_map \<Rightarrow> int \<Rightarrow> photo_kv" where
  "cacheEventPhotoBatch now stamp kv eventId urls expiresIn =
     kv\<lparr>pk_batches :=
          setWithAutoExpiry now (pk_batches kv) (''photo_batch:'' @ eventId)
            \<lparr>eb_event_id = eventId, eb_urls = urls, eb_url_count = length urls,
             eb_expires_in = expiresIn, eb_generated_at = stamp\<rparr>
            (min expiresIn (30 * 60))\<rparr>"

text \<open>
  The first pass of \<open>batchGenerateSignedUrls\<close> over the paths: the URLs that the cache holds
  and that have not expired, the paths to generate, and the store with one hit counted for each
  cached path.
\<close>

definition cached_url :: "int \<Rightarrow> photo_kv \<Rightarrow> string list \<Rightarrow> string \<Rightarrow> string option" where
  "cached_url now kv cacheKeys path =
     (case getBatch (pk_urls kv) cacheKeys (url_key path) of
        None \<Rightarrow> None
      | Some c \<Rightarrow>
          (case expires_at c of
             None \<Rightarrow> None
           | Some ex \<Rightarrow> if ex > now then Some (signed_url (c_value c)) else None))"

definition split_cached :: "int \<Rightarrow> photo_kv \<Rightarrow> string list \<Rightarrow> url_map \<times> string list \<times> photo_kv" where
  "split_cached now kv photoPaths =
     (let cacheKeys = map url_key photoPaths in
      fold (\<lambda>path (validCachedUrls, pathsToGenerate, k).
              (case cached_url now kv cacheKeys path of
                 Some url \<Rightarrow>
                   (AList.update path url validCachedUrls, pathsToGenerate,
                    recordPhotoCacheHit k ''photo_urls'')
               | None \<Rightarrow> (validCachedUrls, pathsToGenerate @ [path], k)))
        photoPaths ([], [], kv))"

record batch_result =
  bg_urls :: url_map
  bg_cached_count :: nat
  bg_generated_count :: nat
  bg_total_count :: nat
  bg_cache_hit_rate :: int
  bg_expires_in :: int
  bg_generated_at :: string

text \<open>\<open>Math.round((c / n) * 100)\<close> for natural numbers, \<open>n\<close> positive: halves round up.\<close>

definition percent :: "nat \<Rightarrow> nat \<Rightarrow> int" where
  "percent c n = int ((200 * c + n) div (2 * n))"

text \<open>
  \<open>batchGenerateSignedUrls\<close>: \<open>Inl\<close> is the exception thrown, which only the validation of the
  arguments throws.
\<close>

definition batchGenerateSignedUrls :: "(string \<Rightarrow> int \<Rightarrow> sign_outcome) \<Rightarrow> int \<Rightarrow> string \<Rightarrow> photo_kv \<Rightarrow>
    string list \<Rightarrow> int \<Rightarrow> string option \<Rightarrow> bool \<Rightarrow> (string + batch_result) \<times> photo_kv" where
  "batchGenerateSignedUrls createSignedUrl now stamp kv photoPaths expiresIn eventId forceRefresh =
     (if length photoPaths = 0 then (Inl ''Invalid photo paths array'', kv)
      else if length photoPaths > MAX_URLS_PER_REQUEST
      then (Inl (''Too many URLs requested. Max: '' @ show_nat MAX_URLS_PER_REQUEST), kv)
      else if expiresIn > MAX_EXPIRY
      then (Inl (''Expiry too long. Max: '' @ show_int MAX_EXPIRY @ '' seconds''), kv)
      else
        (case (if \<not> forceRefresh then split_cached now kv photoPaths else ([], photoPaths, kv)) of
           (cachedUrls, pathsToGenerate, kv1) \<Rightarrow>
             (let newUrls = (if length pathsToGenerate > 0
                             then generateSignedUrlsBatch createSignedUrl pathsToGenerate expiresIn
                             else []);
                  kv2 = (if length pathsToGenerate > 0
                         then recordPhotoCacheMiss (cacheSignedUrls now stamp kv1 newUrls expiresIn)
                                ''photo_urls'' (length pathsToGenerate)
                         else kv1);
                  allUrls = fold (\<lambda>(path, url) acc. AList.update path url acc) newUrls cachedUrls;
                  kv3 = (case eventId of
                           None \<Rightarrow> kv2
                         | Some e \<Rightarrow> if e \<noteq> [] then cacheEventPhotoBatch now stamp kv2 e allUrls expiresIn
                                     else kv2)
              in (Inr \<lparr>bg_urls = allUrls,
                       bg_cached_count = length cachedUrls,
                       bg_generated_count = length newUrls,
                       bg_total_count = length allUrls,
                       bg_cache_hit_rate = percent (length cachedUrls) (length photoPaths),
                       bg_expires_in = expiresIn,
                       bg_generated_at = stamp\<rparr>, kv3))))"

subsection \<open>Photos of an event\<close>

record event_row =
  ev_id :: string
  created_by :: string
  require_moderation :: bool
  event_organizers :: "(string \<times> string) list option"

text \<open>
  The query that \<open>fetchEventPhotos\<close> builds on the table \<open>photos\<close>: the two equality
  filters, the moderation filter, the order clauses (column, ascending, nulls first) and the
  range.  The database answers a query with an error or with rows and an exact count, either
  of which may be null.
\<close>

datatype moderation_filter = StatusIn "string list" | StatusEq string | StatusNeq string

record photo_query =
  pq_event_id :: string
  pq_photo_type :: string
  pq_moderation :: moderation_filter
  pq_order :: "(string \<times> bool \<times> bool option) list"
  pq_from :: int
  pq_to :: int

record photo_db =
  events_single :: "string \<Rightarrow> string + event_row option"
  photos_select :: "photo_query \<Rightarrow> string + (photo list option \<times> int option)"

definition is_space :: "char \<Rightarrow> bool" where
  "is_space c = (c = CHR '' '' \<or> (9 \<le> (of_char c :: nat) \<and> (of_char c :: nat) \<le> 13))"

text \<open>\<open>s.trim() !== ''\<close>.\<close>

definition not_blank :: "string \<Rightarrow> bool" where
  "not_blank s = (\<not> list_all is_space s)"

definition validUserId :: "string option \<Rightarrow> string option" where
  "validUserId userId =
     (case userId of
        None \<Rightarrow> None
      | Some u \<Rightarrow> if u \<noteq> [] \<and> not_blank u \<and> u \<noteq> ''undefined'' then Some u else None)"

definition organizer_of :: "event_row option \<Rightarrow> string option \<Rightarrow> bool" where
  "organizer_of event userId =
     (case (event, userId) of
        (Some ev, Some u) \<Rightarrow>
          u \<noteq> [] \<and>
          (u = created_by ev
           \<or> (case event_organizers ev of
                 None \<Rightarrow> False
               | Some os \<Rightarrow> list_ex (\<lambda>(user_id, status). user_id = u \<and> status = ''active'') os))
      | _ \<Rightarrow> False)"

definition moderation_of :: "event_row option \<Rightarrow> bool" where
  "moderation_of event = (case event of None \<Rightarrow> False | Some ev \<Rightarrow> require_moderation ev)"

definition maxPhotos :: int where "maxPhotos = 200"

text \<open>
  The query of a call, or \<open>None\<close> when the function returns before it queries: in the
  \<open>most_liked\<close> order, for an offset of 200 or more.
\<close>

definition photos_request :: "string \<Rightarrow> int \<Rightarrow> int \<Rightarrow> string option \<Rightarrow> string \<Rightarrow> event_row option \<Rightarrow> photo_query option" where
  "photos_request eventId page lim userId sortBy event =
     (let offset = (page - 1) * lim;
          isOrganizer = organizer_of event (validUserId userId);
          moderation =
            (if moderation_of event then
               (if isOrganizer then StatusIn [''approved'', ''pending'', ''pending_approval'']
                else StatusEq ''approved'')
             else StatusNeq ''deleted'')
      in if sortBy = ''most_liked'' then
           (if offset \<ge> maxPhotos then None
            else Some \<lparr>pq_event_id = eventId, pq_photo_type = ''event'', pq_moderation = moderation,
                       pq_order = [(''like_count_computed'', False, Some False),
                                   (''created_at'', False, None)],
                       pq_from = offset, pq_to = min (offset + lim - 1) (maxPhotos - 1)\<rparr>)
         else Some \<lparr>pq_event_id = eventId, pq_photo_type = ''event'', pq_moderation = moderation,
                    pq_order = [(''created_at'', False, None)],
                    pq_from = offset, pq_to = offset + lim - 1\<rparr>)"

text \<open>
  \<open>fetchEventPhotos\<close> returns \<open>{photos, totalCount}\<close>; \<open>Inl\<close> is the exception thrown.  When
  the caller passes no event, the function fetches it first.
\<close>

definition fetchEventPhotos :: "photo_db \<Rightarrow> string \<Rightarrow> int \<Rightarrow> int \<Rightarrow> string option \<Rightarrow> string \<Rightarrow> event_row option \<Rightarrow>
    string + (photo list \<times> int)" where
  "fetchEventPhotos pdb eventId page lim userId sortBy event =
     (case (case event of
              Some ev \<Rightarrow> Inr (Some ev)
            | None \<Rightarrow>
                (case events_single pdb eventId of
                   Inl message \<Rightarrow> Inl (''Failed to fetch event '' @ eventId @ '': '' @ message)
                 | Inr fetchedEvent \<Rightarrow> Inr fetchedEvent)) of
        Inl err \<Rightarrow> Inl err
      | Inr ev \<Rightarrow>
          (case photos_request eventId page lim userId sortBy ev of
             None \<Rightarrow> Inr ([], maxPhotos)
           | Some query \<Rightarrow>
               (case photos_select pdb query of
                  Inl err \<Rightarrow> Inl err
                | Inr (photos, count) \<Rightarrow>
                    (let count0 = (case count of None \<Rightarrow> 0 | Some c \<Rightarrow> c);
                         actualTotalCount = (if sortBy = ''most_liked'' then min count0 200 else count0)
                     in Inr ((case photos of None \<Rightarrow> [] | Some ps \<Rightarrow> ps), actualTotalCount)))))"

subsection \<open>The page of an event, read through the cache\<close>

datatype role = Anonymous | Participant | Organizer

fun role_name :: "role \<Rightarrow> string" where
  "role_name Anonymous = ''anonymous''"
| "role_name Participant = ''participant''"
| "role_name Organizer = ''organizer''"

text \<open>\<open>!userId\<close> holds for \<open>null\<close>, \<open>undefined\<close> and the empty string.\<close>

definition userRole :: "event_row option \<Rightarrow> string option \<Rightarrow> role" where
  "userRole event userId =
     (case userId of
        None \<Rightarrow> Anonymous
      | Some u \<Rightarrow> if u = [] then Anonymous
                  else if organizer_of event userId then Organizer else Participant)"

definition moderationMode :: "event_row option \<Rightarrow> string" where
  "moderationMode event = (if moderation_of event then ''moderated'' else ''unmoderated'')"

definition validatedSortBy :: "string \<Rightarrow> string" where
  "validatedSortBy sortBy = (if sortBy \<in> set [''most_liked'', ''newest''] then sortBy else ''most_liked'')"

definition event_cache_key :: "string \<Rightarrow> string \<Rightarrow> role \<Rightarrow> string \<Rightarrow> int \<Rightarrow> int \<Rightarrow> string" where
  "event_cache_key eventId sortBy r mode page lim =
     ''event_photos:'' @ eventId @ '':'' @ sortBy @ '':'' @ role_name r @ '':''
       @ mode @ '':'' @ show_int page @ '':'' @ show_int lim"

text \<open>
  The library calls on a URL are parameters: \<open>url_pathname\<close> is \<open>new URL(url).pathname\<close>,
  \<open>None\<close> when the constructor throws; \<open>token_exp\<close> decodes the \<open>token\<close> parameter of a signed
  URL as the check in \<open>getEventPhotoUrls\<close> does, giving the \<open>exp\<close> claim of its payload,
  \<open>NoExpiry\<close> when the URL has no token, the token has not three parts or the payload has no
  \<open>exp\<close>, and \<open>Unparseable\<close> when parsing throws.
\<close>

datatype token_info = NoExpiry | Unparseable | ExpiresAt int

record url_lib =
  url_pathname :: "string \<Rightarrow> string option"
  token_exp :: "string \<Rightarrow> token_info"

definition url_expired :: "url_lib \<Rightarrow> int \<Rightarrow> string \<Rightarrow> bool" where
  "url_expired lib now url =
     (url \<noteq> [] \<and> str_includes url ''token='' \<and>
      (case token_exp lib url of
         NoExpiry \<Rightarrow> False
       | Unparseable \<Rightarrow> True
       | ExpiresAt e \<Rightarrow> e \<noteq> 0 \<and> now + 5 * 60 * 1000 \<ge> e * 1000))"

definition hasExpiredUrls :: "url_lib \<Rightarrow> int \<Rightarrow> url_map \<Rightarrow> bool" where
  "hasExpiredUrls lib now urls = list_ex (\<lambda>(path, url). url_expired lib now url) urls"

text \<open>
  The match of \<open>/lit(.+)/\<close>: the text after the leftmost occurrence of \<open>lit\<close> that is followed
  by a character other than a line break, up to the next line break.
\<close>

definition line_break :: "char \<Rightarrow> bool" where
  "line_break c = (c = CHR 0x0A \<or> c = CHR 0x0D)"

fun match_after :: "string \<Rightarrow> string \<Rightarrow> string option" where
  "match_after lit [] = None"
| "match_after lit (c # cs) =
     (if startsWith (c # cs) lit
         \<and> takeWhile (\<lambda>x. \<not> line_break x) (drop (length lit) (c # cs)) \<noteq> []
      then Some (takeWhile (\<lambda>x. \<not> line_break x) (drop (length lit) (c # cs)))
      else match_after lit cs)"

definition extractStoragePath :: "url_lib \<Rightarrow> string \<Rightarrow> string option" where
  "extractStoragePath lib photoUrl =
     (if photoUrl = [] then None
      else
        (case (if str_includes photoUrl ''token=''
               then (case url_pathname lib photoUrl of
                       None \<Rightarrow> Some None
                     | Some pathname \<Rightarrow>
                         (case match_after ''/storage/v1/object/sign/photos/'' pathname of
                            Some p \<Rightarrow> Some (Some p)
                          | None \<Rightarrow> None))
               else None) of
           Some answer \<Rightarrow> answer
         | None \<Rightarrow>
             (case match_after ''/storage/v1/object/public/photos/'' photoUrl of
                Some p \<Rightarrow> Some p
              | None \<Rightarrow>
                  if startsWith photoUrl ''photos/'' then Some (drop 7 photoUrl)
                  else if \<not> str_includes photoUrl ''http'' \<and> \<not> startsWith photoUrl ''/''
                  then Some photoUrl
                  else None)))"

definition enrich :: "url_lib \<Rightarrow> batch_result \<Rightarrow> photo \<Rightarrow> enriched_photo" where
  "enrich lib urlResult ph =
     (let signedUrl = (case extractStoragePath lib (photo_url ph) of
                         None \<Rightarrow> None
                       | Some path \<Rightarrow> if path = [] then None else map_of (bg_urls urlResult) path);
          truthyUrl = (case signedUrl of None \<Rightarrow> None | Some u \<Rightarrow> if u = [] then None else Some u)
      in \<lparr>ep_photo = ph\<lparr>photo_url := (case truthyUrl of None \<Rightarrow> photo_url ph | Some u \<Rightarrow> u)\<rparr>,
          url_cached = (truthyUrl \<noteq> None),
          url_generated_at = bg_generated_at urlResult\<rparr>)"

text \<open>
  The shapes of the object that \<open>getEventPhotoUrls\<close> returns: the cached page with
  \<open>cached: true, source: 'event_cache'\<close>, and with \<open>cached: false\<close> the empty page
  (\<open>database_empty\<close>), the photos without URLs (\<open>no_valid_paths\<close>: photos, total count, page,
  total pages) and the generated page (\<open>database_with_generated_urls\<close>).
\<close>

datatype photo_read =
    EventCache "event_photos aged"
  | DatabaseEmpty int
  | NoValidPaths "photo list" int int int
  | Generated event_photos

fun photo_cached :: "photo_read \<Rightarrow> bool" where
  "photo_cached (EventCache a) = True"
| "photo_cached (DatabaseEmpty page) = False"
| "photo_cached (NoValidPaths photos totalCount page pages) = False"
| "photo_cached (Generated result) = False"

definition event_fresh_hit :: "url_lib \<Rightarrow> int \<Rightarrow> photo_kv \<Rightarrow> string \<Rightarrow> bool \<Rightarrow> event_photos aged option" where
  "event_fresh_hit lib now kv cacheKey forceRefresh =
     (if forceRefresh then None
      else (case getWithAge now (pk_events kv) cacheKey of
              None \<Rightarrow> None
            | Some cachedEventUrls \<Rightarrow>
                if \<not> is_expired cachedEventUrls
                   \<and> \<not> hasExpiredUrls lib now (er_urls (c_value (a_entry cachedEventUrls)))
                then Some cachedEventUrls else None))"

text \<open>
  \<open>getEventPhotoUrls\<close>: \<open>Inl\<close> is the exception, which the \<open>catch\<close> block logs and throws
  again.
\<close>

definition getEventPhotoUrls :: "photo_db \<Rightarrow> (string \<Rightarrow> int \<Rightarrow> sign_outcome) \<Rightarrow> url_lib \<Rightarrow> int \<Rightarrow> string \<Rightarrow> photo_kv \<Rightarrow>
    string \<Rightarrow> int \<Rightarrow> int \<Rightarrow> bool \<Rightarrow> int \<Rightarrow> string option \<Rightarrow> string \<Rightarrow> (string + photo_read) \<times> photo_kv" where
  "getEventPhotoUrls pdb createSignedUrl lib now stamp kv eventId page lim forceRefresh expiresIn
       userId sortBy =
     (case events_single pdb eventId of
        Inl message \<Rightarrow> (Inl (''Failed to fetch event '' @ eventId @ '': '' @ message), kv)
      | Inr event \<Rightarrow>
          (let sortMode = validatedSortBy sortBy;
               cacheKey = event_cache_key eventId sortMode (userRole event userId)
                            (moderationMode event) page lim
           in case event_fresh_hit lib now kv cacheKey forceRefresh of
                Some cachedEventUrls \<Rightarrow>
                  (Inr (EventCache cachedEventUrls), recordPhotoCacheHit kv ''event_photo_urls'')
              | None \<Rightarrow>
                  (case fetchEventPhotos pdb eventId page lim userId sortMode event of
                     Inl err \<Rightarrow> (Inl err, kv)
                   | Inr (photos, totalCount) \<Rightarrow>
                       if length photos = 0 then (Inr (DatabaseEmpty page), kv)
                       else
                         (let photoPaths =
                                filter not_blank
                                  (List.map_filter (\<lambda>ph. extractStoragePath lib (photo_url ph)) photos)
                          in if length photoPaths = 0
                             then (Inr (NoValidPaths photos totalCount page (ceil_div totalCount lim)), kv)
                             else
                               (case batchGenerateSignedUrls createSignedUrl now stamp kv photoPaths
                                       expiresIn (Some eventId) forceRefresh of
                                  (Inl err, kv1) \<Rightarrow> (Inl err, kv1)
                                | (Inr urlResult, kv1) \<Rightarrow>
                                    (let result =
                                           \<lparr>er_photos = map (enrich lib urlResult) photos,
                                            er_urls = bg_urls urlResult,
                                            er_total_count = totalCount,
                                            er_page = page,
                                            er_limit = lim,
                                            er_total_pages = ceil_div totalCount lim,
                                            er_url_stats =
                                              \<lparr>us_cached_count = bg_cached_count urlResult,
                                               us_generated_count = bg_generated_count urlResult,
                                               us_cache_hit_rate = bg_cache_hit_rate urlResult\<rparr>,
                                            er_generated_at = stamp\<rparr>;
                                         kv2 = kv1\<lparr>pk_events :=
                                                 setWithAutoExpiry now (pk_events kv1) cacheKey result
                                                   (min expiresIn (30 * 60))\<rparr>
                                     in (Inr (Generated result),
                                         recordPhotoCacheMiss kv2 ''event_photo_urls'' 1)))))))"

text \<open>The cache key of a read by \<open>userId\<close>, as \<open>getEventPhotoUrls\<close> builds it.\<close>

definition reader_key :: "event_row option \<Rightarrow> string \<Rightarrow> string \<Rightarrow> string option \<Rightarrow> int \<Rightarrow> int \<Rightarrow> string" where
  "reader_key event eventId sortBy userId page lim =
     event_cache_key eventId (validatedSortBy sortBy) (userRole event userId) (moderationMode event)
       page lim"

subsection \<open>Concrete scenarios of the photo cache\<close>

text \<open>
  A moderated event created by \<open>org\<close>; a database that answers every photo query with one
  photo and the count 1000, and one whose photo queries fail; a storage that throws for the
  path \<open>p13\<close> and signs every other path; a cache that holds, under the key of the anonymous
  reader of page 1, a page written at time 0 that expires at 1800000.
\<close>

definition ex_event :: event_row where
  "ex_event = \<lparr>ev_id = ''ev1'', created_by = ''org'', require_moderation = True,
                event_organizers = Some []\<rparr>"

definition ex_photo :: photo where
  "ex_photo = \<lparr>ph_id = ''ph1'', photo_url = ''ev1/a.jpg'', ph_uploaded_by = ''u1'',
                ph_created_at = ''2024-01-01T10:00:00Z'', ph_like_count = 3,
                ph_moderation_status = ''approved''\<rparr>"

definition ex_photo_db :: photo_db where
  "ex_photo_db = \<lparr>events_single = (\<lambda>eventId. Inr (Some ex_event)),
                   photos_select = (\<lambda>query. Inr (Some [ex_photo], Some 1000))\<rparr>"

definition ex_photo_db_down :: photo_db where
  "ex_photo_db_down = \<lparr>events_single = (\<lambda>eventId. Inr (Some ex_event)),
                        photos_select = (\<lambda>query. Inl ''connection refused'')\<rparr>"

definition ex_lib :: url_lib where
  "ex_lib = \<lparr>url_pathname = (\<lambda>url. None), token_exp = (\<lambda>url. NoExpiry)\<rparr>"

definition ex_sign :: "string \<Rightarrow> int \<Rightarrow> sign_outcome" where
  "ex_sign path expiresIn =
     (if path = ''p13'' then SignThrows ''storage error''
      else SignData (Some (''https://signed/'' @ path)))"

definition ex_page :: event_photos where
  "ex_page = \<lparr>er_photos = [], er_urls = [], er_total_count = 1, er_page = 1, er_limit = 50,
               er_total_pages = 1,
               er_url_stats = \<lparr>us_cached_count = 0, us_generated_count = 0, us_cache_hit_rate = 0\<rparr>,
               er_generated_at = ''2024-01-01T12:00:00.000Z''\<rparr>"

definition ex_anon_key :: string where
  "ex_anon_key = reader_key (Some ex_event) ''ev1'' ''newest'' None 1 50"

definition ex_page_entry :: "event_photos cache_entry" where
  "ex_page_entry = \<lparr>c_value = ex_page, cached_at = Some 0, expires_at = Some 1800000\<rparr>"

definition ex_photo_kv :: photo_kv where
  "ex_photo_kv =
     \<lparr>pk_urls = \<lparr>up = True, entries = Map.empty\<rparr>,
      pk_batches = \<lparr>up = True, entries = Map.empty\<rparr>,
      pk_events = \<lparr>up = True, entries = [ex_anon_key \<mapsto> ex_page_entry]\<rparr>,
      pk_counters = (\<lambda>key. 0)\<rparr>"

chapter \<open>Properties\<close>

section \<open>Dispatch: the paths through \<open>sendNotification\<close>\<close>

lemma notification_types_eq:
  "notification_types = [''photo_liked'', ''gallery_unlocked'', ''community_milestone'',
     ''event_live'', ''event_starting'', ''event_reminder'', ''peak_activity'']"
  by (simp add: notification_types_def NOTIFICATION_TEMPLATES_def)

lemma shouldSend_keeps_tables:
  "shouldSendNotification e d u = (b, d') \<Longrightarrow>
     notification_history d' = notification_history d \<and> push_tokens d' = push_tokens d"
  by (auto simp: shouldSendNotification_def should_send_notification_sql_def Let_def
           split: if_splits option.splits)

lemma path_invalid:
  "validateNotificationData type data = Inl msg \<Longrightarrow>
   sendNotification w sys userId type data = (Failed msg, sys)"
  by (simp add: sendNotification_def)

lemma path_blocked:
  "validateNotificationData type data = Inr ok \<Longrightarrow>
   shouldSendNotification (w_store w) (db sys) userId = (False, db1) \<Longrightarrow>
   sendNotification w sys userId type data = (Reason False ''user_preferences'', sys\<lparr>db := db1\<rparr>)"
  by (simp add: sendNotification_def)

lemma path_disabled:
  "validateNotificationData type data = Inr ok \<Longrightarrow>
   shouldSendNotification (w_store w) (db sys) userId = (True, db1) \<Longrightarrow>
   \<not> truthy (typeEnabled (getUserNotificationPreferences (w_store w) db1 userId) type) \<Longrightarrow>
   sendNotification w sys userId type data = (Reason False ''type_disabled'', sys\<lparr>db := db1\<rparr>)"
  by (simp add: sendNotification_def Let_def)

lemma path_limited:
  "validateNotificationData type data = Inr ok \<Longrightarrow>
   shouldSendNotification (w_store w) (db sys) userId = (True, db1) \<Longrightarrow>
   truthy (typeEnabled (getUserNotificationPreferences (w_store w) db1 userId) type) \<Longrightarrow>
   isRateLimited (w_now w) (rateLimits sys) userId type = (True, rl1) \<Longrightarrow>
   sendNotification w sys userId type data
     = (Reason False ''rate_limited'', sys\<lparr>rateLimits := rl1, db := db1\<rparr>)"
  by (simp add: sendNotification_def Let_def)

lemma path_no_tokens:
  "validateNotificationData type data = Inr ok \<Longrightarrow>
   shouldSendNotification (w_store w) (db sys) userId = (True, db1) \<Longrightarrow>
   truthy (typeEnabled (getUserNotificationPreferences (w_store w) db1 userId) type) \<Longrightarrow>
   isRateLimited (w_now w) (rateLimits sys) userId type = (False, rl1) \<Longrightarrow>
   getUserPushTokens (w_store w) db1 userId = [] \<Longrightarrow>
   sendNotification w sys userId type data
     = (Reason False ''no_tokens'', sys\<lparr>rateLimits := rl1, db := db1\<rparr>)"
  by (simp add: sendNotification_def Let_def)

lemma path_unknown:
  "validateNotificationData type data = Inr ok \<Longrightarrow>
   shouldSendNotification (w_store w) (db sys) userId = (True, db1) \<Longrightarrow>
   truthy (typeEnabled (getUserNotificationPreferences (w_store w) db1 userId) type) \<Longrightarrow>
   isRateLimited (w_now w) (rateLimits sys) userId type = (False, rl1) \<Longrightarrow>
   getUserPushTokens (w_store w) db1 userId \<noteq> [] \<Longrightarrow>
   buildNotification (w_iso w) type data = Inl msg \<Longrightarrow>
   sendNotification w sys userId type data = (Failed msg, sys\<lparr>rateLimits := rl1, db := db1\<rparr>)"
  by (simp add: sendNotification_def Let_def checkBatching_def)

lemma path_delivered:
  "validateNotificationData type data = Inr ok \<Longrightarrow>
   shouldSendNotification (w_store w) (db sys) userId = (True, db1) \<Longrightarrow>
   truthy (typeEnabled (getUserNotificationPreferences (w_store w) db1 userId) type) \<Longrightarrow>
   isRateLimited (w_now w) (rateLimits sys) userId type = (False, rl1) \<Longrightarrow>
   getUserPushTokens (w_store w) db1 userId \<noteq> [] \<Longrightarrow>
   buildNotification (w_iso w) type data = Inr n \<Longrightarrow>
   sendToDevices (w_store w) (w_sdks w) db1 (getUserPushTokens (w_store w) db1 userId)
     = (results, db2, calls) \<Longrightarrow>
   logNotificationHistory (w_store w) db2
      \<lparr>hi_userId = userId, hi_type = n_type n, hi_title = n_title n, hi_body = n_body n,
       hi_data = n_data n, hi_eventId = js_or (js_get data ''eventId'') JNull,
       hi_photoId = js_or (js_get data ''photoId'') JNull\<rparr> = (hid, db3) \<Longrightarrow>
   sendNotification w sys userId type data
     = (Delivered results hid (dr_successful results),
        \<lparr>rateLimits = updateRateLimit (w_now w) rl1 userId type, db = db3,
         adapter_calls = adapter_calls sys @ calls\<rparr>)"
  by (simp add: sendNotification_def Let_def checkBatching_def)

lemma sendNotification_cases:
  obtains
    (invalid) msg where
      "validateNotificationData type data = Inl msg"
      "sendNotification w sys userId type data = (Failed msg, sys)"
  | (blocked) db1 where
      "shouldSendNotification (w_store w) (db sys) userId = (False, db1)"
      "sendNotification w sys userId type data
         = (Reason False ''user_preferences'', sys\<lparr>db := db1\<rparr>)"
  | (disabled) db1 where
      "shouldSendNotification (w_store w) (db sys) userId = (True, db1)"
      "\<not> truthy (typeEnabled (getUserNotificationPreferences (w_store w) db1 userId) type)"
      "sendNotification w sys userId type data = (Reason False ''type_disabled'', sys\<lparr>db := db1\<rparr>)"
  | (limited) db1 rl1 where
      "shouldSendNotification (w_store w) (db sys) userId = (True, db1)"
      "isRateLimited (w_now w) (rateLimits sys) userId type = (True, rl1)"
      "sendNotification w sys userId type data
         = (Reason False ''rate_limited'', sys\<lparr>rateLimits := rl1, db := db1\<rparr>)"
  | (no_tokens) db1 rl1 where
      "shouldSendNotification (w_store w) (db sys) userId = (True, db1)"
      "isRateLimited (w_now w) (rateLimits sys) userId type = (False, rl1)"
      "getUserPushTokens (w_store w) db1 userId = []"
      "sendNotification w sys userId type data
         = (Reason False ''no_tokens'', sys\<lparr>rateLimits := rl1, db := db1\<rparr>)"
  | (unknown) db1 rl1 msg where
      "shouldSendNotification (w_store w) (db sys) userId = (True, db1)"
      "isRateLimited (w_now w) (rateLimits sys) userId type = (False, rl1)"
      "getUserPushTokens (w_store w) db1 userId \<noteq> []"
      "buildNotification (w_iso w) type data = Inl msg"
      "sendNotification w sys userId type data = (Failed msg, sys\<lparr>rateLimits := rl1, db := db1\<rparr>)"
  | (delivered) db1 rl1 n results db2 calls hid db3 where
      "shouldSendNotification (w_store w) (db sys) userId = (True, db1)"
      "isRateLimited (w_now w) (rateLimits sys) userId type = (False, rl1)"
      "getUserPushTokens (w_store w) db1 userId \<noteq> []"
      "buildNotification (w_iso w) type data = Inr n"
      "sendToDevices (w_store w) (w_sdks w) db1 (getUserPushTokens (w_store w) db1 userId)
         = (results, db2, calls)"
      "logNotificationHistory (w_store w) db2
         \<lparr>hi_userId = userId, hi_type = n_type n, hi_title = n_title n, hi_body = n_body n,
          hi_data = n_data n, hi_eventId = js_or (js_get data ''eventId'') JNull,
          hi_photoId = js_or (js_get data ''photoId'') JNull\<rparr> = (hid, db3)"
      "sendNotification w sys userId type data
         = (Delivered results hid (dr_successful results),
            \<lparr>rateLimits = updateRateLimit (w_now w) rl1 userId type, db = db3,
             adapter_calls = adapter_calls sys @ calls\<rparr>)"
proof (cases "validateNotificationData type data")
  case (Inl msg)
  from invalid [OF Inl path_invalid [OF Inl]] show ?thesis .
next
  case (Inr ok)
  obtain canSend db1 where ss: "shouldSendNotification (w_store w) (db sys) userId = (canSend, db1)"
    by (cases "shouldSendNotification (w_store w) (db sys) userId")
  show ?thesis
  proof (cases canSend)
    case False
    with ss have no: "shouldSendNotification (w_store w) (db sys) userId = (False, db1)" by simp
    from blocked [OF no path_blocked [OF Inr no]] show ?thesis .
  next
    case True
    with ss have yes: "shouldSendNotification (w_store w) (db sys) userId = (True, db1)" by simp
    show ?thesis
    proof (cases "truthy (typeEnabled (getUserNotificationPreferences (w_store w) db1 userId) type)")
      case False
      from disabled [OF yes False path_disabled [OF Inr yes False]] show ?thesis .
    next
      case en: True
      obtain lim rl1 where rl: "isRateLimited (w_now w) (rateLimits sys) userId type = (lim, rl1)"
        by (cases "isRateLimited (w_now w) (rateLimits sys) userId type")
      show ?thesis
      proof (cases lim)
        case True
        with rl have lt: "isRateLimited (w_now w) (rateLimits sys) userId type = (True, rl1)" by simp
        from limited [OF yes lt path_limited [OF Inr yes en lt]] show ?thesis .
      next
        case False
        with rl have nl: "isRateLimited (w_now w) (rateLimits sys) userId type = (False, rl1)" by simp
        show ?thesis
        proof (cases "getUserPushTokens (w_store w) db1 userId = []")
          case True
          from no_tokens [OF yes nl True path_no_tokens [OF Inr yes en nl True]] show ?thesis .
        next
          case tk: False
          show ?thesis
          proof (cases "buildNotification (w_iso w) type data")
            case (Inl msg)
            from unknown [OF yes nl tk Inl path_unknown [OF Inr yes en nl tk Inl]] show ?thesis .
          next
            case bn: (Inr n)
            obtain results db2 calls where sd:
              "sendToDevices (w_store w) (w_sdks w) db1 (getUserPushTokens (w_store w) db1 userId)
                 = (results, db2, calls)"
              by (cases "sendToDevices (w_store w) (w_sdks w) db1 (getUserPushTokens (w_store w) db1 userId)")
            obtain hid db3 where lg:
              "logNotificationHistory (w_store w) db2
                 \<lparr>hi_userId = userId, hi_type = n_type n, hi_title = n_title n, hi_body = n_body n,
                  hi_data = n_data n, hi_eventId = js_or (js_get data ''eventId'') JNull,
                  hi_photoId = js_or (js_get data ''photoId'') JNull\<rparr> = (hid, db3)"
              by (cases "logNotificationHistory (w_store w) db2
                 \<lparr>hi_userId = userId, hi_type = n_type n, hi_title = n_title n, hi_body = n_body n,
                  hi_data = n_data n, hi_eventId = js_or (js_get data ''eventId'') JNull,
                  hi_photoId = js_or (js_get data ''photoId'') JNull\<rparr>")
            from delivered [OF yes nl tk bn sd lg path_delivered [OF Inr yes en nl tk bn sd lg]]
            show ?thesis .
          qed
        qed
      qed
    qed
  qed
qed

section \<open>Dispatch: policy skips\<close>

lemma ex_valid: "validateNotificationData ''event_live'' ex_data = Inr True"
  by (simp add: validateNotificationData_def requiredFields_def required_fields_def ex_data_def
        js_get_def)

lemma ex_should_u2:
  "shouldSendNotification (w_store ex_world) (db ex_system) ''u2''
     = (True, ex_store\<lparr>notification_preferences := [''u2'' \<mapsto> default_prefs_row ex_env]\<rparr>)"
  by (simp add: shouldSendNotification_def should_send_notification_sql_def ex_world_def
        ex_system_def ex_env_def ex_store_def)

lemma ex_enabled_u2:
  "truthy (typeEnabled (getUserNotificationPreferences (w_store ex_world)
       (ex_store\<lparr>notification_preferences := [''u2'' \<mapsto> default_prefs_row ex_env]\<rparr>) ''u2'') ''event_live'')"
  by (simp add: typeEnabled_def getUserNotificationPreferences_def ex_world_def ex_env_def
        prefs_object_def js_get_def js_coalesce_def DEFAULT_SETTINGS_def)

lemma ex_rate_u2:
  "isRateLimited (w_now ex_world) (rateLimits ex_system) ''u2'' ''event_live'' = (False, Map.empty)"
  by (simp add: isRateLimited_def ex_system_def rate_limit_of_def maxRequests_def Let_def)

lemma ex_tokens_u2:
  "getUserPushTokens (w_store ex_world)
       (ex_store\<lparr>notification_preferences := [''u2'' \<mapsto> default_prefs_row ex_env]\<rparr>) ''u2'' = []"
  by (simp add: getUserPushTokens_def ex_world_def ex_env_def ex_store_def)

lemmas ex_no_tokens = path_no_tokens [OF ex_valid ex_should_u2 ex_enabled_u2 ex_rate_u2 ex_tokens_u2]

text \<open>
  Claim C1, as the code has it.  When \<open>sendNotification\<close> returns one of the policy reasons
  \<open>user_preferences\<close>, \<open>type_disabled\<close>, \<open>rate_limited\<close> or \<open>no_tokens\<close>, the object returned
  is \<open>{success: false, reason}\<close>: its success flag is false, it has no \<open>error\<close> field, no
  batch adapter has been called and no history row has been written.
\<close>

theorem sendNotification_policy_skip:
  assumes run: "sendNotification w sys userId type data = (r, sys')"
      and why: "reason r = Some c"
      and policy: "c \<in> {''user_preferences'', ''type_disabled'', ''rate_limited'', ''no_tokens''}"
  shows "r = Reason False c \<and> error r = None \<and> adapter_calls sys' = adapter_calls sys
         \<and> notification_history (db sys') = notification_history (db sys)"
proof (cases rule: sendNotification_cases [of type data w sys userId])
  case (invalid msg)
  with run why show ?thesis by auto
next
  case (blocked db1)
  with run why shouldSend_keeps_tables [OF blocked(1)] show ?thesis by auto
next
  case (disabled db1)
  with run why shouldSend_keeps_tables [OF disabled(1)] show ?thesis by auto
next
  case (limited db1 rl1)
  with run why shouldSend_keeps_tables [OF limited(1)] show ?thesis by auto
next
  case (no_tokens db1 rl1)
  with run why shouldSend_keeps_tables [OF no_tokens(1)] show ?thesis by auto
next
  case (unknown db1 rl1 msg)
  with run why show ?thesis by auto
next
  case (delivered db1 rl1 n results db2 calls hid db3)
  with run why show ?thesis by auto
qed

theorem sendNotification_policy_skip_witness:
  "fst (sendNotification ex_world ex_system ''u2'' ''event_live'' ex_data) = Reason False ''no_tokens''
   \<and> adapter_calls (snd (sendNotification ex_world ex_system ''u2'' ''event_live'' ex_data)) = []
   \<and> notification_history (db (snd (sendNotification ex_world ex_system ''u2'' ''event_live'' ex_data))) = []"
proof -
  have run: "sendNotification ex_world ex_system ''u2'' ''event_live'' ex_data
      = (fst (sendNotification ex_world ex_system ''u2'' ''event_live'' ex_data),
         snd (sendNotification ex_world ex_system ''u2'' ''event_live'' ex_data))"
    by simp
  have why: "reason (fst (sendNotification ex_world ex_system ''u2'' ''event_live'' ex_data))
      = Some ''no_tokens''"
    by (simp add: ex_no_tokens)
  have policy: "''no_tokens'' \<in> {''user_preferences'', ''type_disabled'', ''rate_limited'', ''no_tokens''}"
    by simp
  from sendNotification_policy_skip [OF run why policy]
  show ?thesis by (simp add: ex_system_def ex_store_def)
qed

text \<open>
  The dispatch to a user without tokens is a policy skip, and its result is not a successful
  one: \<open>success\<close> is false.
\<close>

theorem sendNotification_policy_skip_unsuccessful:
  "reason (fst (sendNotification ex_world ex_system ''u2'' ''event_live'' ex_data)) = Some ''no_tokens''
   \<and> success (fst (sendNotification ex_world ex_system ''u2'' ''event_live'' ex_data)) = False"
  by (simp add: ex_no_tokens)

section \<open>Templates: validation and rendering\<close>

lemma known_type_template:
  "type \<in> set notification_types \<Longrightarrow> \<exists>tpl. map_of NOTIFICATION_TEMPLATES type = Some tpl"
  by (cases "map_of NOTIFICATION_TEMPLATES type")
     (simp_all add: notification_types_def map_of_eq_None_iff)

lemma primitive_or: "primitive a \<Longrightarrow> primitive b \<Longrightarrow> primitive (js_or a b)"
  by (simp add: js_or_def)

lemma primitive_to_string: "primitive v \<Longrightarrow> \<exists>s. to_string v = Some s"
  by (cases v) simp_all

lemma primitive_ge: "primitive v \<Longrightarrow> \<exists>b. js_ge v n = Some b"
  by (simp add: js_ge_def to_primitive_def)

lemma photo_liked_renders:
  assumes "primitive (js_get data ''eventName'')" and "primitive (js_get data ''likeCount'')"
  shows "\<exists>s. photo_liked_title data = Some s" and "\<exists>s. photo_liked_body data = Some s"
proof -
  let ?count = "js_or (js_get data ''likeCount'') (JNum 1)"
  let ?name = "js_or (js_get data ''eventName'') (JStr ''your event'')"
  have pc: "primitive ?count" and pn: "primitive ?name"
    using assms by (simp_all add: primitive_or)
  obtain c e where s: "to_string ?count = Some c" "to_string ?name = Some e"
    using primitive_to_string [OF pc] primitive_to_string [OF pn] by blast
  obtain b100 b50 b20 b10 where b: "js_ge ?count 100 = Some b100" "js_ge ?count 50 = Some b50"
      "js_ge ?count 20 = Some b20" "js_ge ?count 10 = Some b10"
    using primitive_ge [OF pc] by metis
  show "\<exists>s. photo_liked_title data = Some s"
    by (simp add: photo_liked_title_def Let_def b)
  show "\<exists>s. photo_liked_body data = Some s"
    by (simp add: photo_liked_body_def Let_def b s template_literal_def)
qed

lemma two_fields_render:
  assumes "primitive (js_get data ''eventName'')" and "primitive (js_get data field)"
      and "primitive d1" and "primitive d2"
  shows "\<exists>s1 s2. to_string (js_or (js_get data ''eventName'') d1) = Some s1
                \<and> to_string (js_or (js_get data field) d2) = Some s2"
  using primitive_to_string [OF primitive_or [OF assms(1) assms(3)]]
    primitive_to_string [OF primitive_or [OF assms(2) assms(4)]] by blast

lemma build_photo_liked:
  assumes "\<forall>field \<in> set (requiredFields ''photo_liked''). primitive (js_get data field)"
  shows "\<exists>n. buildNotification stamp ''photo_liked'' data = Inr n"
proof -
  from assms have "primitive (js_get data ''eventName'')" "primitive (js_get data ''likeCount'')"
    by (simp_all add: requiredFields_def required_fields_def)
  from photo_liked_renders [OF this] obtain t b where
    "photo_liked_title data = Some t" "photo_liked_body data = Some b" by blast
  then show ?thesis
    by (simp add: buildNotification_def NOTIFICATION_TEMPLATES_def)
qed

lemma build_gallery_unlocked:
  assumes "\<forall>field \<in> set (requiredFields ''gallery_unlocked''). primitive (js_get data field)"
  shows "\<exists>n. buildNotification stamp ''gallery_unlocked'' data = Inr n"
proof -
  from assms have p: "primitive (js_get data ''eventName'')"
    by (simp add: requiredFields_def required_fields_def)
  from two_fields_render [OF p p, of "JStr ''your event''" "JStr ''your event''"]
  obtain b where "gallery_unlocked_body data = Some b"
    by (auto simp: gallery_unlocked_body_def Let_def template_literal_def)
  then show ?thesis
    by (simp add: buildNotification_def NOTIFICATION_TEMPLATES_def)
qed

lemma build_community_milestone:
  assumes "\<forall>field \<in> set (requiredFields ''community_milestone''). primitive (js_get data field)"
  shows "\<exists>n. buildNotification stamp ''community_milestone'' data = Inr n"
proof -
  from assms have "primitive (js_get data ''eventName'')" "primitive (js_get data ''milestone'')"
    by (simp_all add: requiredFields_def required_fields_def)
  from two_fields_render [OF this, of "JStr ''your event''" "JNum 100"]
  obtain t b where "community_milestone_title data = Some t" "community_milestone_body data = Some b"
    by (auto simp: community_milestone_title_def community_milestone_body_def Let_def
          template_literal_def)
  then show ?thesis
    by (simp add: buildNotification_def NOTIFICATION_TEMPLATES_def)
qed

lemma build_event_live:
  assumes "\<forall>field \<in> set (requiredFields ''event_live''). primitive (js_get data field)"
  shows "\<exists>n. buildNotification stamp ''event_live'' data = Inr n"
proof -
  from assms have p: "primitive (js_get data ''eventName'')"
    by (simp add: requiredFields_def required_fields_def)
  from two_fields_render [OF p p, of "JStr ''Your event''" "JStr ''Your event''"]
  obtain b where "event_live_body data = Some b"
    by (auto simp: event_live_body_def Let_def template_literal_def)
  then show ?thesis
    by (simp add: buildNotification_def NOTIFICATION_TEMPLATES_def)
qed

lemma build_event_starting:
  assumes "\<forall>field \<in> set (requiredFields ''event_starting''). primitive (js_get data field)"
  shows "\<exists>n. buildNotification stamp ''event_starting'' data = Inr n"
proof -
  from assms have "primitive (js_get data ''eventName'')"
      "primitive (js_get data ''minutesUntilStart'')"
    by (simp_all add: requiredFields_def required_fields_def)
  from two_fields_render [OF this, of "JStr ''Your event''" "JNum 15"]
  obtain b where "event_starting_body data = Some b"
    by (auto simp: event_starting_body_def Let_def template_literal_def)
  then show ?thesis
    by (simp add: buildNotification_def NOTIFICATION_TEMPLATES_def)
qed

lemma build_event_reminder:
  assumes "\<forall>field \<in> set (requiredFields ''event_reminder''). primitive (js_get data field)"
  shows "\<exists>n. buildNotification stamp ''event_reminder'' data = Inr n"
proof -
  from assms have "primitive (js_get data ''eventName'')"
      "primitive (js_get data ''hoursUntilStart'')"
    by (simp_all add: requiredFields_def required_fields_def)
  from two_fields_render [OF this, of "JStr ''Your event''" "JNum 1"]
  obtain b where "event_reminder_body data = Some b"
    by (auto simp: event_reminder_body_def Let_def template_literal_def)
  then show ?thesis
    by (simp add: buildNotification_def NOTIFICATION_TEMPLATES_def)
qed

lemma build_peak_activity:
  assumes "\<forall>field \<in> set (requiredFields ''peak_activity''). primitive (js_get data field)"
  shows "\<exists>n. buildNotification stamp ''peak_activity'' data = Inr n"
proof -
  from assms have "primitive (js_get data ''eventName'')"
      "primitive (js_get data ''recentPhotoCount'')"
    by (simp_all add: requiredFields_def required_fields_def)
  from two_fields_render [OF this, of "JStr ''your event''" "JStr ''Many''"]
  obtain b where "peak_activity_body data = Some b"
    by (auto simp: peak_activity_body_def Let_def template_literal_def)
  then show ?thesis
    by (simp add: buildNotification_def NOTIFICATION_TEMPLATES_def)
qed

lemma build_known:
  assumes known: "type \<in> set notification_types"
      and plain: "\<forall>field \<in> set (requiredFields type). primitive (js_get data field)"
  shows "\<exists>n. buildNotification stamp type data = Inr n"
proof -
  from known have "type = ''photo_liked'' \<or> type = ''gallery_unlocked''
      \<or> type = ''community_milestone'' \<or> type = ''event_live'' \<or> type = ''event_starting''
      \<or> type = ''event_reminder'' \<or> type = ''peak_activity''"
    unfolding notification_types_eq by simp
  then show ?thesis
  proof (elim disjE)
    assume t: "type = ''photo_liked''"
    from plain show ?thesis unfolding t by (rule build_photo_liked)
  next
    assume t: "type = ''gallery_unlocked''"
    from plain show ?thesis unfolding t by (rule build_gallery_unlocked)
  next
    assume t: "type = ''community_milestone''"
    from plain show ?thesis unfolding t by (rule build_community_milestone)
  next
    assume t: "type = ''event_live''"
    from plain show ?thesis unfolding t by (rule build_event_live)
  next
    assume t: "type = ''event_starting''"
    from plain show ?thesis unfolding t by (rule build_event_starting)
  next
    assume t: "type = ''event_reminder''"
    from plain show ?thesis unfolding t by (rule build_event_reminder)
  next
    assume t: "type = ''peak_activity''"
    from plain show ?thesis unfolding t by (rule build_peak_activity)
  qed
qed



lemma validate_ok:
  "(\<forall>field \<in> set (requiredFields type). truthy (js_get data field)) \<Longrightarrow>
   validateNotificationData type data = Inr True"
  by (simp add: validateNotificationData_def filter_empty_conv)

lemma validate_missing:
  "field \<in> set (requiredFields type) \<Longrightarrow> \<not> truthy (js_get data field) \<Longrightarrow>
   \<exists>msg. validateNotificationData type data = Inl msg"
  by (auto simp: validateNotificationData_def Let_def filter_empty_conv)

lemma js_get_absent: "map_of data field = None \<Longrightarrow> \<not> truthy (js_get data field)"
  by (simp add: js_get_def)

lemma typeEnabled_known:
  assumes "type \<in> set notification_types"
  shows "truthy (typeEnabled (getUserNotificationPreferences e d userId) type)"
proof -
  have fb: "truthy (typeEnabled fallback_preferences type)"
    using assms unfolding notification_types_eq
    by (auto simp: typeEnabled_def fallback_preferences_def js_get_def js_coalesce_def
          DEFAULT_SETTINGS_def)
  have row: "truthy (typeEnabled (prefs_object userId r) type)" for r
    using assms unfolding notification_types_eq
    by (auto simp: typeEnabled_def prefs_object_def js_get_def js_coalesce_def
          DEFAULT_SETTINGS_def)
  show ?thesis
    by (simp add: getUserNotificationPreferences_def fb row split: option.splits)
qed

text \<open>
  Claim C6, as the code has it.  For each of the seven notification types: when every required
  field has a truthy primitive value (a non-zero number, a non-empty string, \<open>true\<close>),
  \<open>validateNotificationData\<close> returns \<open>true\<close> and \<open>buildNotification\<close> returns a notification;
  when a required field is omitted, or present with a falsy value, \<open>validateNotificationData\<close>
  throws, and \<open>sendNotification\<close> returns that error without reading the store or calling an
  adapter (the state is unchanged).
\<close>

theorem validation_guards_rendering:
  assumes known: "type \<in> set notification_types"
  shows "((\<forall>field \<in> set (requiredFields type).
              truthy (js_get data field) \<and> primitive (js_get data field)) \<longrightarrow>
            validateNotificationData type data = Inr True
            \<and> (\<exists>n. buildNotification stamp type data = Inr n))
       \<and> (field \<in> set (requiredFields type)
            \<and> (map_of data field = None \<or> \<not> truthy (js_get data field)) \<longrightarrow>
            (\<exists>msg. validateNotificationData type data = Inl msg
                  \<and> sendNotification w sys userId type data = (Failed msg, sys)))"
proof (intro conjI impI)
  assume "\<forall>field \<in> set (requiredFields type).
      truthy (js_get data field) \<and> primitive (js_get data field)"
  then show "validateNotificationData type data = Inr True" by (intro validate_ok) simp
next
  assume "\<forall>field \<in> set (requiredFields type).
      truthy (js_get data field) \<and> primitive (js_get data field)"
  then have "\<forall>field \<in> set (requiredFields type). primitive (js_get data field)" by simp
  with known show "\<exists>n. buildNotification stamp type data = Inr n" by (rule build_known)
next
  assume a: "field \<in> set (requiredFields type)
      \<and> (map_of data field = None \<or> \<not> truthy (js_get data field))"
  then have "\<not> truthy (js_get data field)" using js_get_absent by blast
  with a obtain msg where m: "validateNotificationData type data = Inl msg"
    using validate_missing by blast
  from path_invalid [OF m] m
  show "\<exists>msg. validateNotificationData type data = Inl msg
      \<and> sendNotification w sys userId type data = (Failed msg, sys)" by blast
qed

theorem validation_guards_rendering_witness:
  "validateNotificationData ''event_live'' ex_data = Inr True
   \<and> (\<exists>n. buildNotification ''2024'' ''event_live'' ex_data = Inr n)
   \<and> (\<exists>msg. validateNotificationData ''event_live'' [] = Inl msg
          \<and> sendNotification ex_world ex_system ''u1'' ''event_live'' [] = (Failed msg, ex_system))"
proof -
  have known: "''event_live'' \<in> set notification_types"
    by (simp add: notification_types_eq)
  have req: "requiredFields ''event_live'' = [''eventName'']"
    by (simp add: requiredFields_def required_fields_def)
  have present: "\<forall>field \<in> set (requiredFields ''event_live'').
      truthy (js_get ex_data field) \<and> primitive (js_get ex_data field)"
    by (simp add: req ex_data_def js_get_def)
  have absent: "''eventName'' \<in> set (requiredFields ''event_live'')
      \<and> (map_of [] ''eventName'' = (None :: jsval option) \<or> \<not> truthy (js_get [] ''eventName''))"
    by (simp add: req)
  from validation_guards_rendering [OF known, of ex_data "''2024''" "''eventName''"] present
  have one: "validateNotificationData ''event_live'' ex_data = Inr True
      \<and> (\<exists>n. buildNotification ''2024'' ''event_live'' ex_data = Inr n)"
    by blast
  from validation_guards_rendering [OF known, of "[]" "''2024''" "''eventName''"
      ex_world ex_system "''u1''"] absent
  have two: "\<exists>msg. validateNotificationData ''event_live'' [] = Inl msg
      \<and> sendNotification ex_world ex_system ''u1'' ''event_live'' [] = (Failed msg, ex_system)"
    by blast
  from one two show ?thesis by blast
qed

text \<open>
  All required fields of \<open>photo_liked\<close> are present, \<open>likeCount\<close> with the value 0, and the
  validation throws: \<open>!data[field]\<close> takes a falsy value for a missing field.
\<close>

theorem validation_rejects_present_zero:
  "map_of ex_zero_likes ''eventName'' = Some (JStr ''Party'')
   \<and> map_of ex_zero_likes ''likeCount'' = Some (JNum 0)
   \<and> requiredFields ''photo_liked'' = [''eventName'', ''likeCount'']
   \<and> validateNotificationData ''photo_liked'' ex_zero_likes
        = Inl ''Missing required data for photo_liked: likeCount''
   \<and> sendNotification ex_world ex_system ''u1'' ''photo_liked'' ex_zero_likes
        = (Failed ''Missing required data for photo_liked: likeCount'', ex_system)"
proof -
  have req: "requiredFields ''photo_liked'' = [''eventName'', ''likeCount'']"
    by (simp add: requiredFields_def required_fields_def)
  have v: "validateNotificationData ''photo_liked'' ex_zero_likes
        = Inl ''Missing required data for photo_liked: likeCount''"
    by (simp add: validateNotificationData_def req ex_zero_likes_def js_get_def)
  from path_invalid [OF v] v req show ?thesis by (simp add: ex_zero_likes_def)
qed

section \<open>Dispatch: what a delivery changes\<close>




lemma log_keeps_preferences:
  "logNotificationHistory e d input = (hid, d') \<Longrightarrow>
   notification_preferences d' = notification_preferences d"
  by (auto simp: logNotificationHistory_def split: if_splits)









lemma chunks_of_single: "xs \<noteq> [] \<Longrightarrow> length xs \<le> n \<Longrightarrow> chunks_of n xs = [xs]"
  by (subst chunks_of.simps, subst chunks_of.simps) (cases n; auto)


subsection \<open>Push SDKs that fail every request\<close>









section \<open>Dispatch: delivery and history\<close>

lemma ex_should_u1:
  "shouldSendNotification (w_store ex_world) (db ex_system) ''u1''
     = (True, ex_store\<lparr>notification_preferences := [''u1'' \<mapsto> default_prefs_row ex_env]\<rparr>)"
  by (simp add: shouldSendNotification_def should_send_notification_sql_def ex_world_def
        ex_system_def ex_env_def ex_store_def)

lemma ex_rate_u1:
  "isRateLimited (w_now ex_world) (rateLimits ex_system) ''u1'' ''event_live'' = (False, Map.empty)"
  by (simp add: isRateLimited_def ex_system_def rate_limit_of_def maxRequests_def Let_def)

lemma ex_tokens_any:
  "push_tokens d = push_tokens ex_store \<Longrightarrow> \<not> tokens_error e \<Longrightarrow>
   getUserPushTokens e d ''u1''
     = [\<lparr>d_token = ''ExponentPushToken[abc]'', d_platform = ''ios'', d_device_id = ''d1'',
         d_token_type = None, d_device_token = None\<rparr>]"
  by (simp add: getUserPushTokens_def ex_store_def)

lemma ex_tokens_u1:
  "getUserPushTokens (w_store ex_world)
       (ex_store\<lparr>notification_preferences := [''u1'' \<mapsto> default_prefs_row ex_env]\<rparr>) ''u1''
     = [\<lparr>d_token = ''ExponentPushToken[abc]'', d_platform = ''ios'', d_device_id = ''d1'',
         d_token_type = None, d_device_token = None\<rparr>]"
  by (rule ex_tokens_any) (simp_all add: ex_world_def ex_env_def)

lemma ex_expo_down:
  "sendBatchExpoPushNotifications ex_sdks_down [''ExponentPushToken[abc]'']
     = ExpoSuccess \<lparr>successCount = 0, failureCount = 1, invalidCount = 0,
                    tokensToDeactivate = [], tickets = []\<rparr>"
  by (simp add: sendBatchExpoPushNotifications_def ex_sdks_down_def expo_token_shape_def
        startsWith_def chunks_of_single Let_def)

lemma ex_devices_down:
  "sendToDevices e ex_sdks_down d
       [\<lparr>d_token = ''ExponentPushToken[abc]'', d_platform = ''ios'', d_device_id = ''d1'',
         d_token_type = None, d_device_token = None\<rparr>]
     = (\<lparr>dr_total = 1, dr_successful = 0, dr_failed = 1, dr_invalidTokens = []\<rparr>, d,
        [ExpoBatchCall [''ExponentPushToken[abc]'']])"
  by (simp add: sendToDevices_def Let_def is_expo_def is_android_v1_def is_android_legacy_def
        is_ios_def startsWith_def send_expo_bucket_def ex_expo_down)


lemma ex_plain: "\<forall>field \<in> set (requiredFields ''event_live''). primitive (js_get ex_data field)"
  by (simp add: requiredFields_def required_fields_def ex_data_def js_get_def)






text \<open>
  The same happens to a dispatch of one of the seven types when a required field is an object
  that has a key \<open>toString\<close>: the field is truthy, the dispatch passes the four gates, and the
  template literal of the body throws.
\<close>

theorem object_field_passes_gates_and_fails:
  "validateNotificationData ''event_live'' ex_object_name = Inr True
   \<and> fst (shouldSendNotification (w_store ex_world) (db ex_system) ''u1'') = True
   \<and> fst (isRateLimited (w_now ex_world) (rateLimits ex_system) ''u1'' ''event_live'') = False
   \<and> length (getUserPushTokens (w_store ex_world)
        (snd (shouldSendNotification (w_store ex_world) (db ex_system) ''u1'')) ''u1'') = 1
   \<and> fst (sendNotification ex_world ex_system ''u1'' ''event_live'' ex_object_name)
        = Failed ''Cannot convert object to primitive value''
   \<and> success (fst (sendNotification ex_world ex_system ''u1'' ''event_live'' ex_object_name)) = False
   \<and> notification_history
        (db (snd (sendNotification ex_world ex_system ''u1'' ''event_live'' ex_object_name))) = []"
proof -
  let ?db1 = "ex_store\<lparr>notification_preferences := [''u1'' \<mapsto> default_prefs_row ex_env]\<rparr>"
  have v: "validateNotificationData ''event_live'' ex_object_name = Inr True"
    by (simp add: validateNotificationData_def requiredFields_def required_fields_def
          ex_object_name_def js_get_def)
  have known: "''event_live'' \<in> set notification_types"
    by (simp add: notification_types_eq)
  have en: "truthy (typeEnabled (getUserNotificationPreferences (w_store ex_world) ?db1 ''u1'')
      ''event_live'')"
    using known by (rule typeEnabled_known)
  have tk: "getUserPushTokens (w_store ex_world) ?db1 ''u1'' \<noteq> []"
    by (simp add: ex_tokens_u1)
  have bn: "buildNotification (w_iso ex_world) ''event_live'' ex_object_name
      = Inl ''Cannot convert object to primitive value''"
    by (simp add: buildNotification_def NOTIFICATION_TEMPLATES_def event_live_body_def
          ex_object_name_def js_get_def js_or_def template_literal_def no_primitive_def)
  have h: "notification_history ?db1 = []"
    by (simp add: ex_store_def)
  from path_unknown [OF v ex_should_u1 en ex_rate_u1 tk bn]
  show ?thesis by (simp add: v ex_rate_u1 ex_should_u1 ex_tokens_u1 h)
qed

section \<open>Dispatch: preferences\<close>

lemma ex_rpc_down_delivered:
  "fst (sendNotification ex_world_rpc_down ex_system ''u1'' ''event_live'' ex_data)
     = Delivered \<lparr>dr_total = 1, dr_successful = 0, dr_failed = 1, dr_invalidTokens = []\<rparr>
         (Some ''id-1'') 0
   \<and> notification_preferences
        (db (snd (sendNotification ex_world_rpc_down ex_system ''u1'' ''event_live'' ex_data))) ''u1''
     = None"
proof -
  let ?w = ex_world_rpc_down
  have env: "w_store ?w = ex_env\<lparr>rpc_error := True\<rparr>" "w_sdks ?w = ex_sdks_down"
      "w_now ?w = w_now ex_world" "db ex_system = ex_store"
    by (simp_all add: ex_world_rpc_down_def ex_world_def ex_system_def)
  have known: "''event_live'' \<in> set notification_types"
    by (simp add: notification_types_eq)
  have ss: "shouldSendNotification (w_store ?w) (db ex_system) ''u1'' = (True, ex_store)"
    by (simp add: env shouldSendNotification_def)
  obtain n where bn: "buildNotification (w_iso ?w) ''event_live'' ex_data = Inr n"
    using build_known [OF known ex_plain] by blast
  have en: "truthy (typeEnabled (getUserNotificationPreferences (w_store ?w) ex_store ''u1'')
      ''event_live'')"
    using known by (rule typeEnabled_known)
  have rl: "isRateLimited (w_now ?w) (rateLimits ex_system) ''u1'' ''event_live'' = (False, Map.empty)"
    using ex_rate_u1 by (simp add: env)
  have toks: "getUserPushTokens (w_store ?w) ex_store ''u1''
      = [\<lparr>d_token = ''ExponentPushToken[abc]'', d_platform = ''ios'', d_device_id = ''d1'',
          d_token_type = None, d_device_token = None\<rparr>]"
    by (rule ex_tokens_any) (simp_all add: env ex_env_def)
  then have tk: "getUserPushTokens (w_store ?w) ex_store ''u1'' \<noteq> []" by simp
  have sd: "sendToDevices (w_store ?w) (w_sdks ?w) ex_store (getUserPushTokens (w_store ?w) ex_store ''u1'')
      = (\<lparr>dr_total = 1, dr_successful = 0, dr_failed = 1, dr_invalidTokens = []\<rparr>, ex_store,
         [ExpoBatchCall [''ExponentPushToken[abc]'']])"
    unfolding toks env(2) by (rule ex_devices_down)
  let ?input = "\<lparr>hi_userId = ''u1'', hi_type = n_type n, hi_title = n_title n,
       hi_body = n_body n, hi_data = n_data n,
       hi_eventId = js_or (js_get ex_data ''eventId'') JNull,
       hi_photoId = js_or (js_get ex_data ''photoId'') JNull\<rparr>"
  obtain db3 where lg: "logNotificationHistory (w_store ?w) ex_store ?input = (Some ''id-1'', db3)"
    by (simp add: logNotificationHistory_def env ex_env_def)
  have "notification_preferences db3 ''u1'' = None"
    using log_keeps_preferences [OF lg] by (simp add: ex_store_def)
  with path_delivered [OF ex_valid ss en rl tk bn sd lg]
  show ?thesis by simp
qed



text \<open>
  The store answers the call of the stored procedure with an error: the dispatch to \<open>u1\<close>, who
  has no row, is delivered and \<open>u1\<close> still has no row.  And a dispatch whose payload fails
  validation changes nothing.
\<close>

theorem dispatch_without_preferences_row:
  "notification_preferences (db ex_system) ''u1'' = None
   \<and> success (fst (sendNotification ex_world_rpc_down ex_system ''u1'' ''event_live'' ex_data))
   \<and> notification_preferences
        (db (snd (sendNotification ex_world_rpc_down ex_system ''u1'' ''event_live'' ex_data))) ''u1''
        = None
   \<and> sendNotification ex_world ex_system ''u1'' ''event_live'' []
        = (Failed ''Missing required data for event_live: eventName'', ex_system)"
proof -
  have v: "validateNotificationData ''event_live'' []
      = Inl ''Missing required data for event_live: eventName''"
    by (simp add: validateNotificationData_def requiredFields_def required_fields_def js_get_def)
  from path_invalid [OF v] ex_rpc_down_delivered show ?thesis
    by (simp add: ex_system_def ex_store_def)
qed

section \<open>Dispatch: rate limiting\<close>

lemma rate_limit_pos: "0 < rate_limit_of type"
  by (simp add: rate_limit_of_def split: option.splits)







text \<open>The check and the update in terms of the window in force.\<close>

lemma window_at_covers: "window_at now rl key = (c, reset) \<Longrightarrow> now \<le> reset"
  by (auto simp: window_at_def split: option.splits if_splits)


lemma window_at_expired:
  "rl key = Some (c, reset) \<Longrightarrow> reset < now \<Longrightarrow> window_at now rl key = (0, now + 60000)"
  by (simp add: window_at_def)



lemma check_keeps_window:
  "window_at now rl (rate_key userId type) = (c, reset) \<Longrightarrow> rate_limit_of type \<le> c \<Longrightarrow>
   rl (rate_key userId type) = Some (c, reset) \<and> snd (isRateLimited now rl userId type) = rl"
  using rate_limit_pos [of type]
  by (auto simp: isRateLimited_def window_at_def Let_def map_upd_triv split: option.splits if_splits)


























section \<open>Provider adapters: counts and deactivation\<close>

lemma concat_chunks_of: "0 < n \<Longrightarrow> concat (chunks_of n xs) = xs"
proof (induction n xs rule: chunks_of.induct)
  case (1 n xs)
  show ?case
  proof (cases "xs = []")
    case True
    then show ?thesis by (subst chunks_of.simps) simp
  next
    case False
    with 1 have "concat (chunks_of n (drop n xs)) = drop n xs" by simp
    with False 1(2) show ?thesis by (subst chunks_of.simps) simp
  qed
qed

lemma chunks_of_bounded: "chunk \<in> set (chunks_of n xs) \<Longrightarrow> length chunk \<le> n \<and> chunk \<noteq> []"
proof (induction n xs rule: chunks_of.induct)
  case (1 n xs)
  from 1(2) have ne: "n \<noteq> 0" "xs \<noteq> []" by (subst (asm) chunks_of.simps, simp split: if_splits)+
  from 1(2) ne have "chunk = take n xs \<or> chunk \<in> set (chunks_of n (drop n xs))"
    by (subst (asm) chunks_of.simps) simp
  with 1(1) ne show ?case by auto
qed

lemma fold_ticket_counts:
  "fold (expo_ticket_step chunk) its acc = acc' \<Longrightarrow>
   fst acc' + fst (snd acc') = fst acc + fst (snd acc) + length its"
  by (induction its arbitrary: acc)
     (auto simp: expo_ticket_step_def split: prod.splits if_splits)

lemma fold_ticket_deact:
  "fold (expo_ticket_step chunk) its acc = acc' \<Longrightarrow>
   token \<in> set (fst (snd (snd acc'))) \<Longrightarrow>
   token \<in> set (fst (snd (snd acc)))
   \<or> (\<exists>i t. (i, t) \<in> set its \<and> i < length chunk \<and> chunk ! i = token \<and> status t \<noteq> ''ok''
         \<and> details_error t = Some ''DeviceNotRegistered'')"
proof (induction its arbitrary: acc)
  case Nil
  then show ?case by simp
next
  case (Cons it its)
  obtain i t where it: "it = (i, t)" by (cases it)
  obtain sc fc deact al where acc: "acc = (sc, fc, deact, al)" by (cases acc) auto
  let ?acc1 = "expo_ticket_step chunk it acc"
  from Cons.prems have "fold (expo_ticket_step chunk) its ?acc1 = acc'" by simp
  from Cons.IH [OF this Cons.prems(2)]
  consider "token \<in> set (fst (snd (snd ?acc1)))"
    | "\<exists>i t. (i, t) \<in> set its \<and> i < length chunk \<and> chunk ! i = token \<and> status t \<noteq> ''ok''
         \<and> details_error t = Some ''DeviceNotRegistered''" by blast
  then show ?case
  proof cases
    case 1
    then have "token \<in> set deact
        \<or> (i < length chunk \<and> chunk ! i = token \<and> status t \<noteq> ''ok''
            \<and> details_error t = Some ''DeviceNotRegistered'')"
      by (auto simp: it acc expo_ticket_step_def split: if_splits)
    then show ?thesis using it acc by auto
  next
    case 2
    then show ?thesis by auto
  qed
qed

lemma expo_chunk_counts:
  assumes contract: "\<forall>chunk ts. send chunk = Inr ts \<longrightarrow> length ts = length chunk"
      and step: "acc1 = (case send chunk of
          Inl err \<Rightarrow> (case acc of (sc, fc, deact, al) \<Rightarrow> (sc, fc + length chunk, deact, al))
        | Inr ts \<Rightarrow> fold (expo_ticket_step chunk) (enumerate 0 ts)
                     (case acc of (sc, fc, deact, al) \<Rightarrow> (sc, fc, deact, al @ ts)))"
  shows "fst acc1 + fst (snd acc1) = fst acc + fst (snd acc) + length chunk"
proof (cases "send chunk")
  case (Inl err)
  with step show ?thesis by (auto split: prod.splits)
next
  case (Inr ts)
  with contract have len: "length ts = length chunk" by blast
  obtain sc fc deact al where acc: "acc = (sc, fc, deact, al)" by (cases acc) auto
  from step Inr acc
  have "fold (expo_ticket_step chunk) (enumerate 0 ts) (sc, fc, deact, al @ ts) = acc1" by simp
  from fold_ticket_counts [OF this] len acc show ?thesis by simp
qed

lemma expo_send_chunks_counts:
  assumes contract: "\<forall>chunk ts. send chunk = Inr ts \<longrightarrow> length ts = length chunk"
  shows "expo_send_chunks send chunks acc = acc' \<Longrightarrow>
         fst acc' + fst (snd acc') = fst acc + fst (snd acc) + length (concat chunks)"
proof (induction chunks arbitrary: acc)
  case Nil
  then show ?case by simp
next
  case (Cons chunk chunks)
  let ?acc1 = "(case send chunk of
          Inl err \<Rightarrow> (case acc of (sc, fc, deact, al) \<Rightarrow> (sc, fc + length chunk, deact, al))
        | Inr ts \<Rightarrow> fold (expo_ticket_step chunk) (enumerate 0 ts)
                     (case acc of (sc, fc, deact, al) \<Rightarrow> (sc, fc, deact, al @ ts)))"
  from Cons.prems have "expo_send_chunks send chunks ?acc1 = acc'" by simp
  from Cons.IH [OF this] expo_chunk_counts [OF contract refl, of chunk acc]
  show ?case by simp
qed

lemma expo_chunk_deact:
  assumes step: "acc1 = (case send chunk of
          Inl err \<Rightarrow> (case acc of (sc, fc, deact, al) \<Rightarrow> (sc, fc + length chunk, deact, al))
        | Inr ts \<Rightarrow> fold (expo_ticket_step chunk) (enumerate 0 ts)
                     (case acc of (sc, fc, deact, al) \<Rightarrow> (sc, fc, deact, al @ ts)))"
      and tok: "token \<in> set (fst (snd (snd acc1)))"
  shows "token \<in> set (fst (snd (snd acc)))
       \<or> (\<exists>ts i. send chunk = Inr ts \<and> i < length ts \<and> i < length chunk \<and> chunk ! i = token
             \<and> status (ts ! i) \<noteq> ''ok'' \<and> details_error (ts ! i) = Some ''DeviceNotRegistered'')"
proof (cases "send chunk")
  case (Inl err)
  with step tok show ?thesis by (auto split: prod.splits)
next
  case (Inr ts)
  obtain sc fc deact al where acc: "acc = (sc, fc, deact, al)" by (cases acc) auto
  from step Inr acc
  have "fold (expo_ticket_step chunk) (enumerate 0 ts) (sc, fc, deact, al @ ts) = acc1" by simp
  from fold_ticket_deact [OF this tok]
  consider "token \<in> set deact"
    | i t where "(i, t) \<in> set (enumerate 0 ts)" "i < length chunk" "chunk ! i = token"
        "status t \<noteq> ''ok''" "details_error t = Some ''DeviceNotRegistered''"
    by auto
  then show ?thesis
  proof cases
    case 1
    with acc show ?thesis by simp
  next
    case 2
    from 2(1) have "i < length ts" "ts ! i = t" by (auto simp: in_set_enumerate_eq)
    with 2 Inr show ?thesis by blast
  qed
qed

lemma expo_send_chunks_deact:
  "expo_send_chunks send chunks acc = acc' \<Longrightarrow>
   token \<in> set (fst (snd (snd acc'))) \<Longrightarrow>
   token \<in> set (fst (snd (snd acc)))
   \<or> (\<exists>chunk ts i. chunk \<in> set chunks \<and> send chunk = Inr ts \<and> i < length ts
         \<and> i < length chunk \<and> chunk ! i = token
         \<and> status (ts ! i) \<noteq> ''ok'' \<and> details_error (ts ! i) = Some ''DeviceNotRegistered'')"
proof (induction chunks arbitrary: acc)
  case Nil
  then show ?case by simp
next
  case (Cons chunk chunks)
  let ?acc1 = "(case send chunk of
          Inl err \<Rightarrow> (case acc of (sc, fc, deact, al) \<Rightarrow> (sc, fc + length chunk, deact, al))
        | Inr ts \<Rightarrow> fold (expo_ticket_step chunk) (enumerate 0 ts)
                     (case acc of (sc, fc, deact, al) \<Rightarrow> (sc, fc, deact, al @ ts)))"
  from Cons.prems have "expo_send_chunks send chunks ?acc1 = acc'" by simp
  from Cons.IH [OF this Cons.prems(2)]
  consider "token \<in> set (fst (snd (snd ?acc1)))"
    | "\<exists>chunk ts i. chunk \<in> set chunks \<and> send chunk = Inr ts \<and> i < length ts
         \<and> i < length chunk \<and> chunk ! i = token
         \<and> status (ts ! i) \<noteq> ''ok'' \<and> details_error (ts ! i) = Some ''DeviceNotRegistered''"
    by blast
  then show ?case
  proof cases
    case 1
    from expo_chunk_deact [where send = send and chunk = chunk and acc = acc, OF refl 1]
    show ?thesis by auto
  next
    case 2
    then show ?thesis by auto
  qed
qed

lemma fcm_send_chunks_counts:
  assumes contract: "\<forall>batch resp. send batch = Inr resp \<longrightarrow>
      br_successCount resp + br_failureCount resp = length batch"
  shows "fcm_send_chunks send chunks results = Inr results' \<Longrightarrow>
         sum_list (map (\<lambda>b. br_successCount b + br_failureCount b) results')
           = sum_list (map (\<lambda>b. br_successCount b + br_failureCount b) results)
             + length (concat chunks)"
proof (induction chunks arbitrary: results)
  case Nil
  then show ?case by simp
next
  case (Cons batch chunks)
  from Cons.prems obtain response where resp: "send batch = Inr response"
    by (cases "send batch") auto
  with contract have c: "br_successCount response + br_failureCount response = length batch"
    by blast
  from Cons.prems resp
  have "fcm_send_chunks send chunks
      (results @ [\<lparr>br_successCount = br_successCount response,
                    br_failureCount = br_failureCount response,
                    br_responses = br_responses response\<rparr>]) = Inr results'" by simp
  from Cons.IH [OF this] c show ?case by simp
qed

lemma fcm_counts_keep_invalid:
  "dr_invalidTokens
     (fold (\<lambda>batch res. res\<lparr>dr_successful := dr_successful res + br_successCount batch,
                              dr_failed := dr_failed res + br_failureCount batch\<rparr>) batches r)
     = dr_invalidTokens r"
  by (induction batches arbitrary: r) simp_all

lemma fcm_bucket_marks_nothing:
  "dr_invalidTokens (send_fcm_bucket sdk androidTokens r) = dr_invalidTokens r"
  by (simp add: send_fcm_bucket_def fcm_counts_keep_invalid split: fcm_batch.splits)

lemma ex_shapes:
  "expo_token_shape ''ExponentPushToken[abc]''" "expo_token_shape ''ExponentPushToken[gone]''"
  "\<not> expo_token_shape ''bad-token''"
  by (simp_all add: expo_token_shape_def startsWith_def)

lemma ex_expo_mixed:
  "sendBatchExpoPushNotifications ex_sdks_up ex_tokens
     = ExpoSuccess \<lparr>successCount = 1, failureCount = 1, invalidCount = 1,
          tokensToDeactivate = [''ExponentPushToken[gone]''],
          tickets = [\<lparr>status = ''ok'', details_error = None\<rparr>,
                     \<lparr>status = ''error'', details_error = Some ''DeviceNotRegistered''\<rparr>]\<rparr>"
  by (simp add: sendBatchExpoPushNotifications_def ex_sdks_up_def ex_tokens_def ex_shapes
        chunks_of_single Let_def ex_ticket_def expo_ticket_step_def)

lemma ex_expo_one_bad:
  "sendBatchExpoPushNotifications ex_sdks_up [''ExponentPushToken[abc]'', ''bad-token'']
     = ExpoSuccess \<lparr>successCount = 1, failureCount = 0, invalidCount = 1,
          tokensToDeactivate = [],
          tickets = [\<lparr>status = ''ok'', details_error = None\<rparr>]\<rparr>"
  by (simp add: sendBatchExpoPushNotifications_def ex_sdks_up_def ex_shapes
        chunks_of_single Let_def ex_ticket_def expo_ticket_step_def)

lemma ex_fcm_two:
  "sendBatchFCMNotifications ex_sdks_up [''fcm-a'', ''fcm-b''] = FcmSuccess [ex_accept [''fcm-a'', ''fcm-b'']]"
  by (simp add: sendBatchFCMNotifications_def ex_sdks_up_def chunks_of_single ex_accept_def)

text \<open>
  Claim C4, as the code has it.  Let the Expo SDK return one ticket for each message of a chunk,
  and let a multicast response of FCM count each token of its batch as a success or a failure.
  When \<open>sendBatchExpoPushNotifications\<close> returns counts, \<open>successCount + failureCount +
  invalidCount\<close> is the size of the input batch, where \<open>invalidCount\<close> counts the tokens that are
  not of the Expo shape and were not sent; and every token of \<open>tokensToDeactivate\<close> was sent in
  a chunk whose ticket at the token's position is not \<open>ok\<close> and has the error
  \<open>DeviceNotRegistered\<close>.  When \<open>sendBatchFCMNotifications\<close> succeeds, the success and
  failure counts of its chunk results add up to the size of the input batch; the legacy FCM
  adapter marks no token, and its bucket adds none to the tokens that the dispatch deactivates.
\<close>

theorem sendBatch_counts_and_deactivation:
  assumes one_ticket_each:
        "\<forall>chunk ts. sendPushNotificationsAsync sdk chunk = Inr ts \<longrightarrow> length ts = length chunk"
      and counts_cover_batch:
        "\<forall>batch resp. sendMulticast sdk batch = Inr resp \<longrightarrow>
           br_successCount resp + br_failureCount resp = length batch"
  shows "(sendBatchExpoPushNotifications sdk tokens = ExpoSuccess c \<longrightarrow>
            successCount c + failureCount c + invalidCount c = length tokens
          \<and> invalidCount c = length (filter (\<lambda>token. \<not> isExpoPushToken sdk token) tokens)
          \<and> (\<forall>token \<in> set (tokensToDeactivate c).
                \<exists>chunk ts i. chunk \<in> set (chunks_of 100 (filter (isExpoPushToken sdk) tokens))
                  \<and> sendPushNotificationsAsync sdk chunk = Inr ts
                  \<and> i < length ts \<and> i < length chunk \<and> chunk ! i = token
                  \<and> status (ts ! i) \<noteq> ''ok''
                  \<and> details_error (ts ! i) = Some ''DeviceNotRegistered''))
       \<and> (sendBatchFCMNotifications sdk tokens = FcmSuccess results \<longrightarrow>
            sum_list (map (\<lambda>b. br_successCount b + br_failureCount b) results) = length tokens)
       \<and> dr_invalidTokens (send_fcm_bucket sdk androidTokens r) = dr_invalidTokens r"
proof (intro conjI impI ballI)
  let ?valid = "filter (isExpoPushToken sdk) tokens"
  let ?send = "sendPushNotificationsAsync sdk"
  obtain sc fc deact al where run:
    "expo_send_chunks ?send (chunks_of 100 ?valid) (0, 0, [], []) = (sc, fc, deact, al)"
    by (cases "expo_send_chunks ?send (chunks_of 100 ?valid) (0, 0, [], [])") auto
  {
    assume ok: "sendBatchExpoPushNotifications sdk tokens = ExpoSuccess c"
    from ok run have c: "successCount c = sc" "failureCount c = fc" "tokensToDeactivate c = deact"
        "invalidCount c = length (filter (\<lambda>token. \<not> isExpoPushToken sdk token) tokens)"
      by (auto simp: sendBatchExpoPushNotifications_def Let_def split: if_splits)
    from expo_send_chunks_counts [OF one_ticket_each run]
    have "sc + fc = length ?valid" by (simp add: concat_chunks_of)
    with c sum_length_filter_compl [of "isExpoPushToken sdk" tokens]
    show "successCount c + failureCount c + invalidCount c = length tokens" by simp
    from c show "invalidCount c = length (filter (\<lambda>token. \<not> isExpoPushToken sdk token) tokens)"
      by simp
    fix token assume "token \<in> set (tokensToDeactivate c)"
    with c have "token \<in> set (fst (snd (snd (sc, fc, deact, al))))" by simp
    from expo_send_chunks_deact [OF run this]
    show "\<exists>chunk ts i. chunk \<in> set (chunks_of 100 ?valid) \<and> ?send chunk = Inr ts
        \<and> i < length ts \<and> i < length chunk \<and> chunk ! i = token
        \<and> status (ts ! i) \<noteq> ''ok'' \<and> details_error (ts ! i) = Some ''DeviceNotRegistered''"
      by simp
  }
  {
    assume ok: "sendBatchFCMNotifications sdk tokens = FcmSuccess results"
    then have "fcm_send_chunks (sendMulticast sdk) (chunks_of 500 tokens) [] = Inr results"
      by (auto simp: sendBatchFCMNotifications_def split: if_splits sum.splits)
    from fcm_send_chunks_counts [OF counts_cover_batch this]
    show "sum_list (map (\<lambda>b. br_successCount b + br_failureCount b) results) = length tokens"
      by (simp add: concat_chunks_of)
  }
  show "dr_invalidTokens (send_fcm_bucket sdk androidTokens r) = dr_invalidTokens r"
    by (rule fcm_bucket_marks_nothing)
qed

theorem sendBatch_counts_and_deactivation_witness:
  "sendBatchExpoPushNotifications ex_sdks_up ex_tokens
     = ExpoSuccess \<lparr>successCount = 1, failureCount = 1, invalidCount = 1,
          tokensToDeactivate = [''ExponentPushToken[gone]''],
          tickets = [\<lparr>status = ''ok'', details_error = None\<rparr>,
                     \<lparr>status = ''error'', details_error = Some ''DeviceNotRegistered''\<rparr>]\<rparr>
   \<and> (1::nat) + 1 + 1 = length ex_tokens
   \<and> (\<exists>chunk ts i. chunk \<in> set (chunks_of 100 (filter (isExpoPushToken ex_sdks_up) ex_tokens))
          \<and> sendPushNotificationsAsync ex_sdks_up chunk = Inr ts
          \<and> i < length ts \<and> i < length chunk \<and> chunk ! i = ''ExponentPushToken[gone]''
          \<and> status (ts ! i) \<noteq> ''ok''
          \<and> details_error (ts ! i) = Some ''DeviceNotRegistered'')
   \<and> sendBatchFCMNotifications ex_sdks_up [''fcm-a'', ''fcm-b'']
        = FcmSuccess [ex_accept [''fcm-a'', ''fcm-b'']]
   \<and> sum_list (map (\<lambda>b. br_successCount b + br_failureCount b) [ex_accept [''fcm-a'', ''fcm-b'']])
        = length [''fcm-a'', ''fcm-b'']"
proof -
  have one_ticket_each:
    "\<forall>chunk ts. sendPushNotificationsAsync ex_sdks_up chunk = Inr ts \<longrightarrow> length ts = length chunk"
    by (auto simp: ex_sdks_up_def)
  have counts_cover_batch:
    "\<forall>batch resp. sendMulticast ex_sdks_up batch = Inr resp \<longrightarrow>
       br_successCount resp + br_failureCount resp = length batch"
    by (auto simp: ex_sdks_up_def ex_accept_def)
  note inst = sendBatch_counts_and_deactivation [OF one_ticket_each counts_cover_batch]
  let ?c = "\<lparr>successCount = 1, failureCount = 1, invalidCount = 1,
          tokensToDeactivate = [''ExponentPushToken[gone]''],
          tickets = [\<lparr>status = ''ok'', details_error = None\<rparr>,
                     \<lparr>status = ''error'', details_error = Some ''DeviceNotRegistered''\<rparr>]\<rparr>"
  from inst [where tokens = ex_tokens and c = ?c] ex_expo_mixed
  have sum: "successCount ?c + failureCount ?c + invalidCount ?c = length ex_tokens"
    and marked: "\<forall>token \<in> set (tokensToDeactivate ?c).
        \<exists>chunk ts i. chunk \<in> set (chunks_of 100 (filter (isExpoPushToken ex_sdks_up) ex_tokens))
          \<and> sendPushNotificationsAsync ex_sdks_up chunk = Inr ts
          \<and> i < length ts \<and> i < length chunk \<and> chunk ! i = token
          \<and> status (ts ! i) \<noteq> ''ok''
          \<and> details_error (ts ! i) = Some ''DeviceNotRegistered''"
    by blast+
  from marked have gone: "\<exists>chunk ts i.
        chunk \<in> set (chunks_of 100 (filter (isExpoPushToken ex_sdks_up) ex_tokens))
          \<and> sendPushNotificationsAsync ex_sdks_up chunk = Inr ts
          \<and> i < length ts \<and> i < length chunk \<and> chunk ! i = ''ExponentPushToken[gone]''
          \<and> status (ts ! i) \<noteq> ''ok''
          \<and> details_error (ts ! i) = Some ''DeviceNotRegistered''"
    by simp
  from inst [where tokens = "[''fcm-a'', ''fcm-b'']" and results = "[ex_accept [''fcm-a'', ''fcm-b'']]"]
    ex_fcm_two
  have fcm: "sum_list (map (\<lambda>b. br_successCount b + br_failureCount b)
      [ex_accept [''fcm-a'', ''fcm-b'']]) = length [''fcm-a'', ''fcm-b'']"
    by blast
  from sum have sum': "(1::nat) + 1 + 1 = length ex_tokens" by simp
  from ex_expo_mixed sum' gone ex_fcm_two fcm show ?thesis by blast
qed

text \<open>
  A batch of two tokens, one of them malformed: \<open>successCount + failureCount\<close> is 1, not the
  size of the batch.
\<close>

theorem expo_counts_exclude_malformed_tokens:
  "sendBatchExpoPushNotifications ex_sdks_up [''ExponentPushToken[abc]'', ''bad-token'']
     = ExpoSuccess \<lparr>successCount = 1, failureCount = 0, invalidCount = 1,
          tokensToDeactivate = [],
          tickets = [\<lparr>status = ''ok'', details_error = None\<rparr>]\<rparr>
   \<and> length [''ExponentPushToken[abc]'', ''bad-token''] = 2"
  by (simp add: ex_expo_one_bad)

section \<open>Photo cache: the paths through \<open>getEventPhotoUrls\<close>\<close>

lemma pk_events_bump: "pk_events (bump kv k) = pk_events kv"
  by (simp add: bump_def)

lemma pk_events_hit: "pk_events (recordPhotoCacheHit kv t) = pk_events kv"
  by (simp add: recordPhotoCacheHit_def pk_events_bump)

lemma pk_events_miss: "pk_events (recordPhotoCacheMiss kv t n) = pk_events kv"
  by (induction n) (simp_all add: recordPhotoCacheMiss_def pk_events_bump)

lemma pk_events_cacheSignedUrls: "pk_events (cacheSignedUrls now stamp kv urls e) = pk_events kv"
  by (simp add: cacheSignedUrls_def)

lemma pk_events_cacheEventPhotoBatch:
  "pk_events (cacheEventPhotoBatch now stamp kv eventId urls e) = pk_events kv"
  by (simp add: cacheEventPhotoBatch_def)

lemma pk_events_split_fold:
  "pk_events (snd (snd (fold (\<lambda>path (validCachedUrls, pathsToGenerate, k).
              (case cached_url now kv cacheKeys path of
                 Some url \<Rightarrow>
                   (AList.update path url validCachedUrls, pathsToGenerate,
                    recordPhotoCacheHit k ''photo_urls'')
               | None \<Rightarrow> (validCachedUrls, pathsToGenerate @ [path], k))) paths (a, b, k0))))
   = pk_events k0"
  by (induction paths arbitrary: a b k0) (simp_all add: pk_events_hit split: option.splits)

lemma pk_events_split_cached:
  "pk_events (snd (snd (split_cached now kv paths))) = pk_events kv"
  by (simp add: split_cached_def Let_def pk_events_split_fold)

lemma pk_events_batch:
  "pk_events (snd (batchGenerateSignedUrls sign now stamp kv paths e eventId force)) = pk_events kv"
proof -
  obtain c g k where s: "split_cached now kv paths = (c, g, k)"
    by (cases "split_cached now kv paths") auto
  with pk_events_split_cached [of now kv paths] have k: "pk_events k = pk_events kv" by simp
  show ?thesis
    by (simp add: batchGenerateSignedUrls_def Let_def s k pk_events_miss pk_events_cacheSignedUrls
          pk_events_cacheEventPhotoBatch split: option.splits)
qed

lemma photo_path_event_error:
  "events_single pdb eventId = Inl message \<Longrightarrow>
   getEventPhotoUrls pdb sign lib now stamp kv eventId page lim force expiresIn userId sortBy
     = (Inl (''Failed to fetch event '' @ eventId @ '': '' @ message), kv)"
  by (simp add: getEventPhotoUrls_def)

lemma photo_path_hit:
  "events_single pdb eventId = Inr event \<Longrightarrow>
   event_fresh_hit lib now kv (reader_key event eventId sortBy userId page lim) force = Some c \<Longrightarrow>
   getEventPhotoUrls pdb sign lib now stamp kv eventId page lim force expiresIn userId sortBy
     = (Inr (EventCache c), recordPhotoCacheHit kv ''event_photo_urls'')"
  by (simp add: getEventPhotoUrls_def Let_def reader_key_def)

lemma photo_path_fetch_error:
  "events_single pdb eventId = Inr event \<Longrightarrow>
   event_fresh_hit lib now kv (reader_key event eventId sortBy userId page lim) force = None \<Longrightarrow>
   fetchEventPhotos pdb eventId page lim userId (validatedSortBy sortBy) event = Inl err \<Longrightarrow>
   getEventPhotoUrls pdb sign lib now stamp kv eventId page lim force expiresIn userId sortBy
     = (Inl err, kv)"
  by (simp add: getEventPhotoUrls_def Let_def reader_key_def)

lemma photo_read_events:
  assumes ev: "events_single pdb eventId = Inr event"
  shows "pk_events (snd (getEventPhotoUrls pdb sign lib now stamp kv eventId page lim force
            expiresIn userId sortBy)) = pk_events kv
       \<or> (\<exists>result. pk_events (snd (getEventPhotoUrls pdb sign lib now stamp kv eventId page lim
              force expiresIn userId sortBy))
            = setWithAutoExpiry now (pk_events kv)
                (reader_key event eventId sortBy userId page lim) result (min expiresIn (30 * 60)))"
proof (cases "event_fresh_hit lib now kv (reader_key event eventId sortBy userId page lim) force")
  case (Some c)
  from photo_path_hit [OF ev Some] show ?thesis by (simp add: pk_events_hit)
next
  case None
  show ?thesis
  proof (cases "fetchEventPhotos pdb eventId page lim userId (validatedSortBy sortBy) event")
    case (Inl err)
    from photo_path_fetch_error [OF ev None Inl] show ?thesis by simp
  next
    case (Inr pt)
    obtain photos totalCount where pt: "pt = (photos, totalCount)" by (cases pt)
    let ?paths = "filter not_blank
        (List.map_filter (\<lambda>ph. extractStoragePath lib (photo_url ph)) photos)"
    obtain res kv1 where b: "batchGenerateSignedUrls sign now stamp kv ?paths expiresIn
        (Some eventId) force = (res, kv1)"
      by (cases "batchGenerateSignedUrls sign now stamp kv ?paths expiresIn (Some eventId) force")
    from pk_events_batch [of sign now stamp kv ?paths expiresIn "Some eventId" force] b
    have k1: "pk_events kv1 = pk_events kv" by simp
    show ?thesis
      using ev None Inr pt b k1
      by (cases res)
         (auto simp: getEventPhotoUrls_def Let_def reader_key_def pk_events_miss)
  qed
qed

lemma photo_read_not_cache:
  assumes ev: "events_single pdb eventId = Inr event"
      and miss: "event_fresh_hit lib now kv (reader_key event eventId sortBy userId page lim) force = None"
  shows "fst (getEventPhotoUrls pdb sign lib now stamp kv eventId page lim force expiresIn userId
            sortBy) \<noteq> Inr (EventCache hit)"
proof (cases "fetchEventPhotos pdb eventId page lim userId (validatedSortBy sortBy) event")
  case (Inl err)
  from photo_path_fetch_error [OF ev miss Inl] show ?thesis by simp
next
  case (Inr pt)
  obtain photos totalCount where pt: "pt = (photos, totalCount)" by (cases pt)
  let ?paths = "filter not_blank
      (List.map_filter (\<lambda>ph. extractStoragePath lib (photo_url ph)) photos)"
  obtain res kv1 where b: "batchGenerateSignedUrls sign now stamp kv ?paths expiresIn
      (Some eventId) force = (res, kv1)"
    by (cases "batchGenerateSignedUrls sign now stamp kv ?paths expiresIn (Some eventId) force")
  show ?thesis
    using ev miss Inr pt b
    by (cases res) (auto simp: getEventPhotoUrls_def Let_def reader_key_def)
qed

lemma fresh_hit_entry:
  "event_fresh_hit lib now kv key force = Some hit \<Longrightarrow>
   entries (pk_events kv) key = Some (a_entry hit)"
  by (auto simp: event_fresh_hit_def getWithAge_def getCachedData_def Let_def
           split: if_splits option.splits)

section \<open>Photo cache: the cache key\<close>

lemma role_name_inj: "role_name r1 @ '':'' @ s1 = role_name r2 @ '':'' @ s2 \<Longrightarrow> r1 = r2"
  by (cases r1; cases r2) simp_all

lemma moderationMode_inj:
  "moderationMode e1 @ s = moderationMode e2 @ s \<Longrightarrow> moderationMode e1 = moderationMode e2"
  by simp

lemma event_cache_key_inj:
  "event_cache_key eventId sortBy r1 (moderationMode e1) page lim
     = event_cache_key eventId sortBy r2 (moderationMode e2) page lim
   \<longleftrightarrow> r1 = r2 \<and> moderationMode e1 = moderationMode e2"
proof
  assume eq: "event_cache_key eventId sortBy r1 (moderationMode e1) page lim
     = event_cache_key eventId sortBy r2 (moderationMode e2) page lim"
  then have tail: "role_name r1 @ '':'' @ (moderationMode e1 @ '':'' @ show_int page @ '':'' @ show_int lim)
      = role_name r2 @ '':'' @ (moderationMode e2 @ '':'' @ show_int page @ '':'' @ show_int lim)"
    by (simp add: event_cache_key_def)
  from role_name_inj [OF tail] have r: "r1 = r2" .
  with tail have "moderationMode e1 @ ('':'' @ show_int page @ '':'' @ show_int lim)
      = moderationMode e2 @ ('':'' @ show_int page @ '':'' @ show_int lim)" by simp
  then have "moderationMode e1 = moderationMode e2" by simp
  with r show "r1 = r2 \<and> moderationMode e1 = moderationMode e2" by simp
next
  assume "r1 = r2 \<and> moderationMode e1 = moderationMode e2"
  then show "event_cache_key eventId sortBy r1 (moderationMode e1) page lim
     = event_cache_key eventId sortBy r2 (moderationMode e2) page lim"
    by (simp add: event_cache_key_def)
qed

text \<open>The role and the moderation mode of the key, from the actor and the event.\<close>

lemma organizer_role:
  assumes "org \<noteq> []"
      and "org = created_by event
           \<or> (\<exists>os. event_organizers event = Some os \<and> (org, ''active'') \<in> set os)"
  shows "userRole (Some event) (Some org) = Organizer"
  using assms by (auto simp: userRole_def organizer_of_def list_ex_iff)

lemma participant_role:
  assumes "p \<noteq> []" and "p \<noteq> created_by event"
      and "\<forall>os. event_organizers event = Some os \<longrightarrow> (p, ''active'') \<notin> set os"
  shows "userRole (Some event) (Some p) = Participant"
  using assms by (auto simp: userRole_def organizer_of_def list_ex_iff split: option.splits)

lemma anonymous_role: "anon = None \<or> anon = Some [] \<Longrightarrow> userRole event anon = Anonymous"
  by (auto simp: userRole_def)

lemma validUserId_Some: "validUserId userId = Some u \<Longrightarrow> userId = Some u \<and> u \<noteq> []"
  by (auto simp: validUserId_def split: option.splits if_splits)

lemma organizer_filter_role:
  "organizer_of event (validUserId userId) \<Longrightarrow> userRole event userId = Organizer"
proof -
  assume o: "organizer_of event (validUserId userId)"
  then obtain u where "validUserId userId = Some u"
    by (cases "validUserId userId") (auto simp: organizer_of_def split: option.splits)
  with validUserId_Some [OF this] o show ?thesis by (simp add: userRole_def)
qed

lemma moderated_filter:
  "photos_request eventId page lim userId sortBy (Some event) = Some q \<Longrightarrow>
   require_moderation event \<Longrightarrow>
   pq_moderation q = (if organizer_of (Some event) (validUserId userId)
                      then StatusIn [''approved'', ''pending'', ''pending_approval'']
                      else StatusEq ''approved'')"
  by (auto simp: photos_request_def moderation_of_def Let_def split: if_splits)

lemma reader_key_roles:
  "reader_key event eventId sortBy u page lim = reader_key event' eventId sortBy u' page lim
   \<longleftrightarrow> userRole event u = userRole event' u' \<and> moderationMode event = moderationMode event'"
  unfolding reader_key_def by (rule event_cache_key_inj)

lemma cache_hit_own_entry:
  assumes ev: "events_single pdb eventId = Inr event"
      and hit: "fst (getEventPhotoUrls pdb sign lib now stamp kv eventId page lim force expiresIn
                 userId sortBy) = Inr (EventCache hit)"
  shows "entries (pk_events kv) (reader_key event eventId sortBy userId page lim) = Some (a_entry hit)"
proof (cases "event_fresh_hit lib now kv (reader_key event eventId sortBy userId page lim) force")
  case None
  from photo_read_not_cache [OF ev None] hit show ?thesis by blast
next
  case (Some c)
  from photo_path_hit [OF ev Some] hit have "c = hit" by simp
  with fresh_hit_entry [OF Some] show ?thesis by simp
qed

lemma read_keeps_other_keys:
  assumes ev: "events_single pdb eventId = Inr event"
      and other: "k \<noteq> reader_key event eventId sortBy userId page lim"
  shows "entries (pk_events (snd (getEventPhotoUrls pdb sign lib now stamp kv eventId page lim
              force expiresIn userId sortBy))) k = entries (pk_events kv) k"
  using photo_read_events [OF ev, of sign lib now stamp kv page lim force expiresIn userId sortBy]
    other
  by (auto simp: setWithAutoExpiry_def setCachedData_def)

text \<open>
  Claim C5.  On an event that requires moderation take an organizer (the creator of the event
  or an active organizer of it), a participant (a signed-in user who is neither) and an
  anonymous reader (no user id, or an empty one).  For the same event, sort mode and
  pagination their cache keys name the roles \<open>organizer\<close>, \<open>participant\<close> and \<open>anonymous\<close> and
  the mode \<open>moderated\<close>, so the keys of two of them differ; a read that is served from the
  cache returns the object stored under the reader's own key, and a read leaves what is stored
  under the key of another of them as it was.  The key of the same read on an event that does
  not require moderation is a different one.  And whoever shares the participant's or the
  anonymous reader's key is given the filter \<open>approved\<close> by \<open>fetchEventPhotos\<close>: a page that
  was fetched with the organizers' filter is never stored under these keys.
\<close>

theorem event_cache_key_isolation:
  assumes ev: "events_single pdb eventId = Inr (Some event)"
      and moderated: "require_moderation event"
      and organizer: "org \<noteq> [] \<and> (org = created_by event
                        \<or> (\<exists>os. event_organizers event = Some os \<and> (org, ''active'') \<in> set os))"
      and participant: "p \<noteq> [] \<and> p \<noteq> created_by event
                        \<and> (\<forall>os. event_organizers event = Some os \<longrightarrow> (p, ''active'') \<notin> set os)"
      and anonymous: "anon = None \<or> anon = Some []"
      and reader: "u \<in> {Some org, Some p, anon}"
      and other: "u' \<in> {Some org, Some p, anon}"
      and different: "u \<noteq> u'"
  shows "reader_key (Some event) eventId sortBy (Some org) page lim
           = ''event_photos:'' @ eventId @ '':'' @ validatedSortBy sortBy
               @ '':organizer:moderated:'' @ show_int page @ '':'' @ show_int lim
       \<and> reader_key (Some event) eventId sortBy (Some p) page lim
           = ''event_photos:'' @ eventId @ '':'' @ validatedSortBy sortBy
               @ '':participant:moderated:'' @ show_int page @ '':'' @ show_int lim
       \<and> reader_key (Some event) eventId sortBy anon page lim
           = ''event_photos:'' @ eventId @ '':'' @ validatedSortBy sortBy
               @ '':anonymous:moderated:'' @ show_int page @ '':'' @ show_int lim
       \<and> reader_key (Some event) eventId sortBy u page lim
           \<noteq> reader_key (Some event) eventId sortBy u' page lim
       \<and> (fst (getEventPhotoUrls pdb sign lib now stamp kv eventId page lim force expiresIn
                 u sortBy) = Inr (EventCache hit) \<longrightarrow>
            entries (pk_events kv) (reader_key (Some event) eventId sortBy u page lim)
              = Some (a_entry hit))
       \<and> entries (pk_events (snd (getEventPhotoUrls pdb sign lib now stamp kv eventId page lim
              force expiresIn u sortBy))) (reader_key (Some event) eventId sortBy u' page lim)
          = entries (pk_events kv) (reader_key (Some event) eventId sortBy u' page lim)
       \<and> (\<forall>(event' :: event_row) v v'. \<not> require_moderation event' \<longrightarrow>
             reader_key (Some event') eventId sortBy v page lim
               \<noteq> reader_key (Some event) eventId sortBy v' page lim)
       \<and> (\<forall>v q. (reader_key (Some event) eventId sortBy v page lim
                     = reader_key (Some event) eventId sortBy (Some p) page lim
                   \<or> reader_key (Some event) eventId sortBy v page lim
                     = reader_key (Some event) eventId sortBy anon page lim)
                \<and> photos_request eventId page lim v (validatedSortBy sortBy) (Some event) = Some q
             \<longrightarrow> pq_moderation q = StatusEq ''approved'')"
proof -
  let ?key = "\<lambda>v. reader_key (Some event) eventId sortBy v page lim"
  have org: "userRole (Some event) (Some org) = Organizer"
    using organizer by (intro organizer_role) simp_all
  have part: "userRole (Some event) (Some p) = Participant"
    using participant by (intro participant_role) simp_all
  have anon: "userRole (Some event) anon = Anonymous"
    using anonymous by (rule anonymous_role)
  have mode: "moderationMode (Some event) = ''moderated''"
    using moderated by (simp add: moderationMode_def moderation_of_def)
  have roles: "userRole (Some event) u \<noteq> userRole (Some event) u'"
    using reader other different org part anon by auto
  have keys: "?key u \<noteq> ?key u'"
    using roles by (simp add: reader_key_roles)
  have hit_own: "entries (pk_events kv) (?key u) = Some (a_entry hit)"
    if "fst (getEventPhotoUrls pdb sign lib now stamp kv eventId page lim force expiresIn
                 u sortBy) = Inr (EventCache hit)"
    using ev that by (rule cache_hit_own_entry)
  have kept: "entries (pk_events (snd (getEventPhotoUrls pdb sign lib now stamp kv eventId page lim
              force expiresIn u sortBy))) (?key u') = entries (pk_events kv) (?key u')"
    using ev keys [symmetric] by (rule read_keeps_other_keys)
  have unmoderated: "reader_key (Some event') eventId sortBy v page lim \<noteq> ?key v'"
    if "\<not> require_moderation event'" for event' :: event_row and v v'
    using that mode by (simp add: reader_key_roles moderationMode_def moderation_of_def)
  have approved: "pq_moderation q = StatusEq ''approved''"
    if shared: "?key v = ?key (Some p) \<or> ?key v = ?key anon"
      and query: "photos_request eventId page lim v (validatedSortBy sortBy) (Some event) = Some q"
    for v q
  proof -
    from shared part anon have "userRole (Some event) v \<noteq> Organizer"
      by (auto simp: reader_key_roles)
    with organizer_filter_role [of "Some event" v]
    have "\<not> organizer_of (Some event) (validUserId v)" by blast
    with moderated_filter [OF query moderated] show ?thesis by simp
  qed
  show ?thesis
  proof (intro conjI impI allI)
    show "?key (Some org) = ''event_photos:'' @ eventId @ '':'' @ validatedSortBy sortBy
               @ '':organizer:moderated:'' @ show_int page @ '':'' @ show_int lim"
      by (simp add: reader_key_def event_cache_key_def org mode)
    show "?key (Some p) = ''event_photos:'' @ eventId @ '':'' @ validatedSortBy sortBy
               @ '':participant:moderated:'' @ show_int page @ '':'' @ show_int lim"
      by (simp add: reader_key_def event_cache_key_def part mode)
    show "?key anon = ''event_photos:'' @ eventId @ '':'' @ validatedSortBy sortBy
               @ '':anonymous:moderated:'' @ show_int page @ '':'' @ show_int lim"
      by (simp add: reader_key_def event_cache_key_def anon mode)
    show "?key u \<noteq> ?key u'" by (rule keys)
    show "entries (pk_events (snd (getEventPhotoUrls pdb sign lib now stamp kv eventId page lim
              force expiresIn u sortBy))) (?key u') = entries (pk_events kv) (?key u')"
      by (rule kept)
  next
    assume "fst (getEventPhotoUrls pdb sign lib now stamp kv eventId page lim force expiresIn
                 u sortBy) = Inr (EventCache hit)"
    then show "entries (pk_events kv) (?key u) = Some (a_entry hit)" by (rule hit_own)
  next
    fix event' :: event_row and v v'
    assume "\<not> require_moderation event'"
    then show "reader_key (Some event') eventId sortBy v page lim \<noteq> ?key v'" by (rule unmoderated)
  next
    fix v q
    assume "(?key v = ?key (Some p) \<or> ?key v = ?key anon)
        \<and> photos_request eventId page lim v (validatedSortBy sortBy) (Some event) = Some q"
    then show "pq_moderation q = StatusEq ''approved''" using approved by blast
  qed
qed

lemma ex_anon_hit:
  "getEventPhotoUrls ex_photo_db ex_sign ex_lib 1000000 stamp ex_photo_kv ''ev1'' 1 50 False 3600
      None ''newest''
     = (Inr (EventCache \<lparr>a_entry = ex_page_entry, cache_age = 1000, cache_ttl = 800,
                         is_expired = False\<rparr>),
        recordPhotoCacheHit ex_photo_kv ''event_photo_urls'')"
proof -
  have ev: "events_single ex_photo_db ''ev1'' = Inr (Some ex_event)"
    by (simp add: ex_photo_db_def)
  have hit: "event_fresh_hit ex_lib 1000000 ex_photo_kv
      (reader_key (Some ex_event) ''ev1'' ''newest'' None 1 50) False
      = Some \<lparr>a_entry = ex_page_entry, cache_age = 1000, cache_ttl = 800, is_expired = False\<rparr>"
    by (simp add: event_fresh_hit_def getWithAge_def getCachedData_def ex_photo_kv_def
          ex_anon_key_def [symmetric] ex_page_entry_def ex_page_def hasExpiredUrls_def Let_def)
  from photo_path_hit [OF ev hit] show ?thesis .
qed

lemma ex_page_numbers: "show_int 1 = ''1''" "show_int 50 = ''50''"
  by code_simp+

theorem event_cache_key_isolation_witness:
  "reader_key (Some ex_event) ''ev1'' ''newest'' (Some ''org'') 1 50
     = ''event_photos:ev1:newest:organizer:moderated:1:50''
   \<and> reader_key (Some ex_event) ''ev1'' ''newest'' (Some ''u7'') 1 50
     = ''event_photos:ev1:newest:participant:moderated:1:50''
   \<and> ex_anon_key = ''event_photos:ev1:newest:anonymous:moderated:1:50''
   \<and> fst (getEventPhotoUrls ex_photo_db ex_sign ex_lib 1000000 ''2024'' ex_photo_kv ''ev1'' 1 50
             False 3600 None ''newest'')
        = Inr (EventCache \<lparr>a_entry = ex_page_entry, cache_age = 1000, cache_ttl = 800,
                            is_expired = False\<rparr>)
   \<and> entries (pk_events ex_photo_kv) ex_anon_key = Some ex_page_entry
   \<and> entries (pk_events (snd (getEventPhotoUrls ex_photo_db ex_sign ex_lib 1000000 ''2024''
          ex_photo_kv ''ev1'' 1 50 False 3600 (Some ''org'') ''newest''))) ex_anon_key
        = Some ex_page_entry
   \<and> entries (pk_events (snd (getEventPhotoUrls ex_photo_db ex_sign ex_lib 1000000 ''2024''
          ex_photo_kv ''ev1'' 1 50 False 3600 (Some ''u7'') ''newest''))) ex_anon_key
        = Some ex_page_entry
   \<and> entries (pk_events (snd (getEventPhotoUrls ex_photo_db ex_sign ex_lib 1000000 ''2024''
          ex_photo_kv ''ev1'' 1 50 False 3600 (Some ''u7'') ''newest'')))
        (reader_key (Some ex_event) ''ev1'' ''newest'' (Some ''org'') 1 50)
        = None"
proof -
  have ev: "events_single ex_photo_db ''ev1'' = Inr (Some ex_event)"
    by (simp add: ex_photo_db_def)
  have moderated: "require_moderation ex_event"
    by (simp add: ex_event_def)
  have organizer: "''org'' \<noteq> [] \<and> (''org'' = created_by ex_event
      \<or> (\<exists>os. event_organizers ex_event = Some os \<and> (''org'', ''active'') \<in> set os))"
    by (simp add: ex_event_def)
  have participant: "''u7'' \<noteq> [] \<and> ''u7'' \<noteq> created_by ex_event
      \<and> (\<forall>os. event_organizers ex_event = Some os \<longrightarrow> (''u7'', ''active'') \<notin> set os)"
    by (simp add: ex_event_def)
  have anonymous: "(None :: string option) = None \<or> (None :: string option) = Some []"
    by simp
  have members: "Some ''org'' \<in> {Some ''org'', Some ''u7'', None}"
      "Some ''u7'' \<in> {Some ''org'', Some ''u7'', None}"
      "None \<in> {Some ''org'', Some ''u7'', None}"
    by simp_all
  have stored: "entries (pk_events ex_photo_kv) ex_anon_key = Some ex_page_entry"
    by (simp add: ex_photo_kv_def)
  note by_org = event_cache_key_isolation [OF ev moderated organizer participant anonymous
      members(1) members(3), where sortBy = "''newest''" and page = 1
      and lim = 50 and sign = ex_sign and lib = ex_lib and now = 1000000 and stamp = "''2024''"
      and kv = ex_photo_kv and force = False and expiresIn = 3600,
      folded ex_anon_key_def]
  note by_participant = event_cache_key_isolation [OF ev moderated organizer participant anonymous
      members(2) members(3), where sortBy = "''newest''" and page = 1
      and lim = 50 and sign = ex_sign and lib = ex_lib and now = 1000000 and stamp = "''2024''"
      and kv = ex_photo_kv and force = False and expiresIn = 3600,
      folded ex_anon_key_def]
  note participant_org = event_cache_key_isolation [OF ev moderated organizer participant anonymous
      members(2) members(1), where sortBy = "''newest''" and page = 1
      and lim = 50 and sign = ex_sign and lib = ex_lib and now = 1000000 and stamp = "''2024''"
      and kv = ex_photo_kv and force = False and expiresIn = 3600,
      folded ex_anon_key_def]
  have sort: "validatedSortBy ''newest'' = ''newest''"
    by (simp add: validatedSortBy_def)
  from by_org [THEN conjunct1]
  have k1: "reader_key (Some ex_event) ''ev1'' ''newest'' (Some ''org'') 1 50
      = ''event_photos:ev1:newest:organizer:moderated:1:50''"
    by (simp add: sort ex_page_numbers)
  from by_org [THEN conjunct2, THEN conjunct1]
  have k2: "reader_key (Some ex_event) ''ev1'' ''newest'' (Some ''u7'') 1 50
      = ''event_photos:ev1:newest:participant:moderated:1:50''"
    by (simp add: sort ex_page_numbers)
  from by_org [THEN conjunct2, THEN conjunct2, THEN conjunct1]
  have k3: "ex_anon_key = ''event_photos:ev1:newest:anonymous:moderated:1:50''"
    by (simp add: sort ex_page_numbers)
  from by_org [THEN conjunct2, THEN conjunct2, THEN conjunct2, THEN conjunct2, THEN conjunct2,
      THEN conjunct1] stored
  have kept1: "entries (pk_events (snd (getEventPhotoUrls ex_photo_db ex_sign ex_lib 1000000
      ''2024'' ex_photo_kv ''ev1'' 1 50 False 3600 (Some ''org'') ''newest''))) ex_anon_key
        = Some ex_page_entry"
    by simp
  from by_participant [THEN conjunct2, THEN conjunct2, THEN conjunct2, THEN conjunct2,
      THEN conjunct2, THEN conjunct1] stored
  have kept2: "entries (pk_events (snd (getEventPhotoUrls ex_photo_db ex_sign ex_lib 1000000
      ''2024'' ex_photo_kv ''ev1'' 1 50 False 3600 (Some ''u7'') ''newest''))) ex_anon_key
        = Some ex_page_entry"
    by simp
  have "entries (pk_events ex_photo_kv) (reader_key (Some ex_event) ''ev1'' ''newest'' (Some ''org'') 1 50)
      = None"
    by (simp add: k1 ex_photo_kv_def k3)
  with participant_org [THEN conjunct2, THEN conjunct2, THEN conjunct2, THEN conjunct2,
      THEN conjunct2, THEN conjunct1]
  have kept3: "entries (pk_events (snd (getEventPhotoUrls ex_photo_db ex_sign ex_lib 1000000 ''2024''
          ex_photo_kv ''ev1'' 1 50 False 3600 (Some ''u7'') ''newest'')))
        (reader_key (Some ex_event) ''ev1'' ''newest'' (Some ''org'') 1 50) = None"
    by simp
  have hit: "fst (getEventPhotoUrls ex_photo_db ex_sign ex_lib 1000000 ''2024'' ex_photo_kv ''ev1'' 1 50
             False 3600 None ''newest'')
        = Inr (EventCache \<lparr>a_entry = ex_page_entry, cache_age = 1000, cache_ttl = 800,
                            is_expired = False\<rparr>)"
    using ex_anon_hit [of "''2024''"] by simp
  from k1 k2 k3 hit stored kept1 kept2 kept3 show ?thesis by blast
qed

section \<open>Photo cache: the ceiling of the most-liked order\<close>

lemma most_liked_request:
  "photos_request eventId page lim userId ''most_liked'' event = Some q \<Longrightarrow>
   pq_from q = (page - 1) * lim \<and> pq_from q < 200 \<and> pq_to q \<le> 199"
  by (auto simp: photos_request_def Let_def maxPhotos_def split: if_splits)

lemma most_liked_beyond:
  "200 \<le> (page - 1) * lim \<Longrightarrow> photos_request eventId page lim userId ''most_liked'' event = None"
  by (simp add: photos_request_def Let_def maxPhotos_def)

text \<open>
  Claim C7.  In the \<open>most_liked\<close> order the total count that \<open>fetchEventPhotos\<close> reports is at
  most 200; for an offset of 200 or more the function builds no query and returns no photos
  (with the total count 200); and a query that it builds asks for rows from the offset, below
  200, up to at most row 199.
\<close>

theorem most_liked_capped_at_200:
  "(fetchEventPhotos pdb eventId page lim userId ''most_liked'' event = Inr (photos, totalCount)
      \<longrightarrow> totalCount \<le> 200)
   \<and> (200 \<le> (page - 1) * lim \<longrightarrow>
        photos_request eventId page lim userId ''most_liked'' event = None
        \<and> fetchEventPhotos pdb eventId page lim userId ''most_liked'' (Some ev) = Inr ([], 200))
   \<and> (photos_request eventId page lim userId ''most_liked'' event = Some q \<longrightarrow>
        pq_from q = (page - 1) * lim \<and> pq_from q < 200 \<and> pq_to q \<le> 199)"
proof (intro conjI impI)
  assume "fetchEventPhotos pdb eventId page lim userId ''most_liked'' event = Inr (photos, totalCount)"
  then show "totalCount \<le> 200"
    by (auto simp: fetchEventPhotos_def Let_def maxPhotos_def
             split: option.splits sum.splits if_splits)
next
  assume far: "200 \<le> (page - 1) * lim"
  then show "photos_request eventId page lim userId ''most_liked'' event = None"
    by (rule most_liked_beyond)
  from far show "fetchEventPhotos pdb eventId page lim userId ''most_liked'' (Some ev) = Inr ([], 200)"
    by (simp add: fetchEventPhotos_def most_liked_beyond maxPhotos_def)
next
  assume q: "photos_request eventId page lim userId ''most_liked'' event = Some q"
  from most_liked_request [OF q]
  show "pq_from q = (page - 1) * lim" and "pq_from q < 200" and "pq_to q \<le> 199" by simp_all
qed

theorem most_liked_capped_at_200_witness:
  "fetchEventPhotos ex_photo_db ''ev1'' 1 50 None ''most_liked'' (Some ex_event)
     = Inr ([ex_photo], 200)
   \<and> photos_request ''ev1'' 5 50 None ''most_liked'' (Some ex_event) = None
   \<and> fetchEventPhotos ex_photo_db ''ev1'' 5 50 None ''most_liked'' (Some ex_event) = Inr ([], 200)
   \<and> (\<exists>q. photos_request ''ev1'' 4 60 None ''most_liked'' (Some ex_event) = Some q
          \<and> pq_from q = 180 \<and> pq_to q = 199)"
proof -
  have one: "fetchEventPhotos ex_photo_db ''ev1'' 1 50 None ''most_liked'' (Some ex_event)
      = Inr ([ex_photo], 200)"
    by (simp add: fetchEventPhotos_def photos_request_def Let_def maxPhotos_def ex_photo_db_def)
  have far: "(200::int) \<le> (5 - 1) * 50" by simp
  obtain q where q: "photos_request ''ev1'' 4 60 None ''most_liked'' (Some ex_event) = Some q"
    and to: "pq_to q = 199"
    by (simp add: photos_request_def Let_def maxPhotos_def)
  from most_liked_capped_at_200 [where pdb = ex_photo_db and eventId = "''ev1''" and page = 1
      and lim = 50 and userId = None and event = "Some ex_event" and photos = "[ex_photo]"
      and totalCount = 200] one
  have "(200::int) \<le> 200" by blast
  moreover from most_liked_capped_at_200 [where pdb = ex_photo_db and eventId = "''ev1''"
      and page = 5 and lim = 50 and userId = None and event = "Some ex_event" and ev = ex_event] far
  have "photos_request ''ev1'' 5 50 None ''most_liked'' (Some ex_event) = None"
    and "fetchEventPhotos ex_photo_db ''ev1'' 5 50 None ''most_liked'' (Some ex_event) = Inr ([], 200)"
    by blast+
  moreover from most_liked_capped_at_200 [where eventId = "''ev1''" and page = 4 and lim = 60
      and userId = None and event = "Some ex_event" and q = q] q
  have "pq_from q = (4 - 1) * 60" by blast
  ultimately show ?thesis using one q to by auto
qed

end
